theory Spec2Isabelle
  imports Complex_Main "HOL-Library.Word"
begin

section \<open>The gl-tutorial programs\<close>

text \<open>
  The repository holds four standalone Go programs, each a single \<open>main\<close> with a few
  helpers that are repeated word for word in every file that uses them
  (\<open>handleKey\<close>, \<open>checkError\<close>, \<open>createTexture\<close>):
  \<^item> the context-creation program (\<open>context-creation.go\<close>),
  \<^item> the reflective cube,
  \<^item> the flat-colour triangle,
  \<^item> the textured quad drawn from an element buffer.

  The programs talk to three outside parties: GLFW (windowing and input), the OpenGL
  driver, and the file system with the PNG decoder. The model makes those parties
  explicit. What they answer is an \<open>env\<close> record of inputs; what the program asks of them
  is the \<open>calls\<close> log of a \<open>world\<close> record, oldest call first. A panic, a normal return and
  a loop that never ends are distinct results.
\<close>

subsection \<open>Values exchanged with the libraries\<close>

type_synonym byte = "8 word"

text \<open>\<open>glfw.Key\<close> and \<open>glfw.Action\<close> are integer types; the constants are GLFW's.\<close>

type_synonym Key = int
type_synonym Action = int
type_synonym ModifierKey = int

definition KeyEscape :: Key where
  "KeyEscape = 256"

definition Release :: Action where
  "Release = 0"

definition Press :: Action where
  "Press = 1"

definition Repeat :: Action where
  "Repeat = 2"

text \<open>
  What one \<open>glfw.PollEvents()\<close> can deliver to the window: a key event, which GLFW hands
  to the registered key callback, or the user's request to close the window, on which
  GLFW itself raises the window's should-close flag.
\<close>

datatype event =
    KeyEvent Key int Action ModifierKey
  | CloseRequest

datatype hint = ContextVersionMajor | ContextVersionMinor | OpenglProfile
  | OpenglForwardCompatible | Resizable

datatype hint_value = HintInt int | OpenglCoreProfile | GlfwTrue | GlfwFalse

datatype cap = DEPTH_TEST | STENCIL_TEST

datatype buffer_bit = COLOR_BUFFER_BIT | DEPTH_BUFFER_BIT | STENCIL_BUFFER_BIT

datatype buffer_target = ARRAY_BUFFER | ELEMENT_ARRAY_BUFFER

datatype buffer_name = Vbo | Ebo | Buffers0

datatype shader_kind = VERTEX_SHADER | FRAGMENT_SHADER

datatype texture_unit = TEXTURE0 | TEXTURE1

datatype tex_param = TEXTURE_MAG_FILTER | TEXTURE_MIN_FILTER

datatype stencil_func = ALWAYS | EQUAL

datatype stencil_op = KEEP | REPLACE

datatype elem_type = FLOAT | UNSIGNED_INT

text \<open>
  Floating-point values appear in the programs only as arguments handed on to the
  libraries. A literal is kept as the rational it denotes. The one computed value, the
  rotation angle \<open>math.Pi * float32(diffTime.Seconds())\<close>, is kept as the term
  \<open>PiTimesSeconds d\<close> for the \<open>time.Duration\<close> \<open>d\<close> (nanoseconds) it was computed from:
  float32 rounding is not interpreted. Matrices built by the mathgl library are kept as
  the expression that built them.
\<close>

datatype f32 = PiTimesSeconds int

datatype mat4 =
    LookAtV "rat \<times> rat \<times> rat" "rat \<times> rat \<times> rat" "rat \<times> rat \<times> rat"
  | Perspective rat rat rat rat
  | HomogRotate3DZ f32
  | Translate3D rat rat rat
  | Scale3D rat rat rat
  | Mul4 mat4 mat4

text \<open>
  The library calls a program issues. Objects the driver names (buffers, shaders, the
  program, attribute and uniform locations) are referred to by the variable or GLSL
  name the program holds them under; textures by the number \<open>gl.GenTexture()\<close> returned,
  because \<open>createTexture\<close> returns that number.
\<close>

datatype call =
    SetErrorCallback
  | GlfwInit
  | Terminate
  | WindowHint hint hint_value
  | GetPrimaryMonitor
  | CreateWindow int int string bool
  | Destroy
  | MakeContextCurrent
  | SetKeyCallback
  | SetShouldClose bool
  | PollEvents
  | SwapBuffers
  | GetFramebufferSize
  | OsOpen string
  | FileClose string
  | PngDecode
  | GlInit
  | GetError
  | Enable cap
  | Disable cap
  | GenVertexArray
  | BindVertexArray
  | DeleteVertexArray
  | GenBuffer buffer_name
  | GenBuffers nat
  | BindBuffer buffer_name buffer_target
  | BufferData buffer_target int
  | DeleteBuffer buffer_name
  | ActiveTexture texture_unit
  | GenTexture
  | BindTexture nat
  | TexParameterf tex_param
  | TexImage2D int int "byte list"
  | DeleteTexture nat
  | CreateShader shader_kind
  | ShaderSource shader_kind
  | CompileShader shader_kind
  | GetShaderStatus shader_kind
  | GetShaderInfoLog shader_kind
  | CreateProgram
  | AttachShader shader_kind
  | BindFragDataLocation nat string
  | LinkProgram
  | UseProgram
  | ValidateProgram
  | GetValidateStatus
  | GetProgramInfoLog
  | GetAttribLocation string
  | EnableArray string
  | AttribPointer string nat int int
  | GetUniformLocation string
  | Uniform1i string int
  | Uniform3f string rat rat rat
  | UniformMatrix4fv string mat4
  | Viewport int int int int
  | ClearColor rat rat rat rat
  | Clear "buffer_bit list"
  | DrawArrays int int
  | DrawElements int elem_type
  | StencilFunc stencil_func int nat
  | StencilOp stencil_op stencil_op stencil_op
  | StencilMask nat
  | DepthMask bool

subsection \<open>Images\<close>

text \<open>
  \<open>image.NRGBA\<close>: the pixel bytes, the distance in bytes between the starts of two rows,
  and the bounds. \<open>Pix\<close> is a list, so the slice's capacity is its length, as it is for
  the slices the PNG decoder allocates. An image of any other concrete type is \<open>OtherImage\<close>.
\<close>

record Rectangle =
  MinX :: int
  MinY :: int
  MaxX :: int
  MaxY :: int

definition Dx :: "Rectangle \<Rightarrow> int" where
  "Dx r = MaxX r - MinX r"

definition Dy :: "Rectangle \<Rightarrow> int" where
  "Dy r = MaxY r - MinY r"

record NRGBA =
  Pix :: "byte list"
  Stride :: int
  Rect :: Rectangle

datatype image = NRGBAImage NRGBA | OtherImage

type_synonym reader = "byte list"

subsection \<open>The world and the environment\<close>

text \<open>
  The state a program can change: the window's should-close flag, the log of library
  calls, the lines printed on standard output, and the stack of deferred calls
  (most recent first).
\<close>

record world =
  ShouldClose :: bool
  calls :: "call list"
  stdout :: "string list"
  deferred :: "call list"

definition w0 :: world where
  "w0 = \<lparr>ShouldClose = False, calls = [], stdout = [], deferred = []\<rparr>"

text \<open>
  What the outside answers during one iteration of a render loop: the events of that
  \<open>PollEvents\<close>, the framebuffer size, the time since \<open>startTime\<close> in nanoseconds, and
  the code \<open>gl.GetError()\<close> returns in that iteration's \<open>checkError\<close>.
\<close>

record frame_input =
  events :: "event list"
  fb_size :: "int \<times> int"
  since_start :: int
  gl_error :: nat

text \<open>
  What the outside answers during setup, and the stream of frame inputs. A \<open>string option\<close>
  is Go's \<open>error\<close> (\<open>None\<close> is \<open>nil\<close>); \<open>setup_error\<close> gives the code \<open>gl.GetError()\<close>
  returns in the setup's \<open>checkError(prefix)\<close>, the prefixes of one program being distinct.
  \<open>link_status\<close> is the program object's LINK_STATUS after \<open>program.Link()\<close>.
\<close>

record env =
  glfw_Init :: bool
  primary_monitor_err :: "string option"
  create_window_err :: "string option"
  os_Open :: "string \<Rightarrow> string + reader"
  png_Decode :: "reader \<Rightarrow> string + image"
  gen_texture :: "nat \<Rightarrow> nat"
  gen_buffers :: nat
  compile_status :: "shader_kind \<Rightarrow> int"
  shader_info_log :: "shader_kind \<Rightarrow> string"
  link_status :: int
  validate_status :: int
  program_info_log :: string
  setup_error :: "string \<Rightarrow> nat"
  ErrorString :: "nat \<Rightarrow> string option"
  frames :: "nat \<Rightarrow> frame_input"

definition GL_TRUE :: int where
  "GL_TRUE = 1"

definition NO_ERROR :: nat where
  "NO_ERROR = 0"

text \<open>
  How a piece of program ends: it returns a value in a new world, it panics with a
  message in the world reached so far, or it never returns.
\<close>

datatype 'a exec = Ret 'a world | Pan string world | Hang

definition issue :: "call \<Rightarrow> world \<Rightarrow> world" where
  "issue c w = w\<lparr>calls := calls w @ [c]\<rparr>"

definition issues :: "call list \<Rightarrow> world \<Rightarrow> world" where
  "issues cs w = w\<lparr>calls := calls w @ cs\<rparr>"

definition printf :: "string \<Rightarrow> world \<Rightarrow> world" where
  "printf s w = w\<lparr>stdout := stdout w @ [s]\<rparr>"

definition defer_call :: "call \<Rightarrow> world \<Rightarrow> world" where
  "defer_call c w = w\<lparr>deferred := c # deferred w\<rparr>"

definition run_deferred :: "world \<Rightarrow> world" where
  "run_deferred w = w\<lparr>calls := calls w @ deferred w, deferred := []\<rparr>"

definition newline :: string where
  "newline = [CHR 0x0A]"

subsection \<open>handleKey\<close>

text \<open>
  \<^verbatim>\<open>if action != glfw.Press { return }
  if k == glfw.KeyEscape { window.SetShouldClose(true) }\<close>
\<close>

definition handleKey :: "world \<Rightarrow> Key \<Rightarrow> int \<Rightarrow> Action \<Rightarrow> ModifierKey \<Rightarrow> world" where
  "handleKey window k s action mods =
     (if action \<noteq> Press then window
      else if k = KeyEscape then (issue (SetShouldClose True) window)\<lparr>ShouldClose := True\<rparr>
      else window)"

subsection \<open>checkError\<close>

text \<open>
  \<open>glError\<close> is what \<open>gl.GetError()\<close> returned; \<open>glu.ErrorString\<close> either knows a name for
  the code or returns an error.
\<close>

definition checkError :: "env \<Rightarrow> string \<Rightarrow> nat \<Rightarrow> world \<Rightarrow> world" where
  "checkError e prefix glError w =
     (let w1 = issue GetError w in
      if glError \<noteq> NO_ERROR then
        (case ErrorString e glError of
           None \<Rightarrow> printf (prefix @ '': unspecified error!'' @ newline) w1
         | Some errorString \<Rightarrow> printf (prefix @ '' error: '' @ errorString @ newline) w1)
      else w1)"

subsection \<open>createTexture\<close>

text \<open>
  A Go slice expression \<open>s[lo:hi]\<close> panics unless \<open>0 \<le> lo \<le> hi \<le> cap(s)\<close>;
  \<open>copy(dst, src)\<close> copies \<open>min(len(dst), len(src))\<close> elements. \<open>copy_into data dest n src\<close>
  is \<open>data\<close> after \<open>copy(data[dest:dest+n], src)\<close>.
\<close>

definition slice_ok :: "int \<Rightarrow> int \<Rightarrow> nat \<Rightarrow> bool" where
  "slice_ok lo hi c = (0 \<le> lo \<and> lo \<le> hi \<and> hi \<le> int c)"

definition slice :: "'a list \<Rightarrow> int \<Rightarrow> int \<Rightarrow> 'a list" where
  "slice xs lo hi = take (nat (hi - lo)) (drop (nat lo) xs)"

definition copy_into :: "'a list \<Rightarrow> nat \<Rightarrow> nat \<Rightarrow> 'a list \<Rightarrow> 'a list" where
  "copy_into data dest n src =
     (let m = min n (length src) in take dest data @ take m src @ drop (dest + m) data)"

text \<open>
  The flip loop:
  \<^verbatim>\<open>for src := 0; src < len(rgbaImg.Pix); src += rgbaImg.Stride {
      copy(data[dest:dest+lineLen], rgbaImg.Pix[src:src+rgbaImg.Stride])
      dest -= lineLen
  }\<close>
  Nothing in the loop forces \<open>src\<close> to grow (a zero stride), so it is a partial function:
  \<open>None\<close> is the loop that never ends, \<open>Some (Inl m)\<close> a run-time panic.
\<close>

partial_function (option) flip_loop ::
  "byte list \<Rightarrow> int \<Rightarrow> int \<Rightarrow> int \<Rightarrow> int \<Rightarrow> byte list \<Rightarrow> (string + byte list) option" where
  "flip_loop pix stride lineLen src dest data =
     (if src < int (length pix) then
        (if \<not> slice_ok dest (dest + lineLen) (length data)
           then Some (Inl ''runtime error: slice bounds out of range'')
         else if \<not> slice_ok src (src + stride) (length pix)
           then Some (Inl ''runtime error: slice bounds out of range'')
         else flip_loop pix stride lineLen (src + stride) (dest - lineLen)
                (copy_into data (nat dest) (nat lineLen) (slice pix src (src + stride))))
      else Some (Inr data))"

text \<open>
  \<open>createTexture\<close> returns the pair \<open>(gl.Texture, error)\<close>. The texture number the driver
  hands out is \<open>gen_texture e k\<close> for the \<open>k\<close>-th \<open>gl.GenTexture()\<close> of the run.
  Go's \<open>int\<close> has 64 bits and the model computes with unbounded integers. For an image
  in row layout (\<open>row_layout\<close> below) the two agree: \<open>Stride\<close> and \<open>len(Pix)\<close> are Go
  integers, and every value \<open>createTexture\<close> computes lies between \<open>- Stride\<close> and
  \<open>max Stride (len(Pix))\<close>.
\<close>

definition createTexture :: "env \<Rightarrow> reader \<Rightarrow> world \<Rightarrow> (nat \<times> string option) exec" where
  "createTexture e r w =
     (let wd = issue PngDecode w in
      case png_Decode e r of
        Inl err \<Rightarrow> Ret (0, Some err) wd
      | Inr img \<Rightarrow>
          (case img of
             OtherImage \<Rightarrow> Ret (0, Some ''texture must be an NRGBA image'') wd
           | NRGBAImage rgbaImg \<Rightarrow>
               (let textureId = gen_texture e (length (filter (\<lambda>c. c = GenTexture) (calls wd)));
                    w1 = issues [GenTexture, BindTexture textureId,
                               TexParameterf TEXTURE_MAG_FILTER,
                               TexParameterf TEXTURE_MIN_FILTER] wd;
                    imgWidth = Dx (Rect rgbaImg);
                    imgHeight = Dy (Rect rgbaImg)
                in if imgWidth * imgHeight * 4 < 0
                   then Pan ''runtime error: makeslice: len out of range'' w1
                   else
                     (let data = replicate (nat (imgWidth * imgHeight * 4)) (0 :: byte);
                          lineLen = imgWidth * 4;
                          dest = int (length data) - lineLen
                      in case flip_loop (Pix rgbaImg) (Stride rgbaImg) lineLen 0 dest data of
                           None \<Rightarrow> Hang
                         | Some (Inl m) \<Rightarrow> Pan m w1
                         | Some (Inr data') \<Rightarrow>
                             Ret (textureId, None)
                               (issue (TexImage2D imgWidth imgHeight data') w1)))))"

subsection \<open>Events and the render loop\<close>

text \<open>
  \<open>glfw.PollEvents()\<close> processes the pending events in order. Every program registers
  \<open>handleKey\<close> as the window's key callback before its loop starts.
\<close>

fun dispatch :: "event \<Rightarrow> world \<Rightarrow> world" where
  "dispatch (KeyEvent k s action mods) w = handleKey w k s action mods"
| "dispatch CloseRequest w = w\<lparr>ShouldClose := True\<rparr>"

definition poll_events :: "event list \<Rightarrow> world \<Rightarrow> world" where
  "poll_events evs w = fold dispatch evs (issue PollEvents w)"

text \<open>
  \<^verbatim>\<open>for !window.ShouldClose() { body }\<close>
  with the \<open>i\<close>-th iteration reading the \<open>i\<close>-th frame input. \<open>None\<close> is the loop that
  never ends.
\<close>

partial_function (option) render_loop ::
  "(frame_input \<Rightarrow> world \<Rightarrow> world) \<Rightarrow> (nat \<Rightarrow> frame_input) \<Rightarrow> nat \<Rightarrow> world \<Rightarrow> world option" where
  "render_loop body inputs i w =
     (if ShouldClose w then Some w
      else render_loop body inputs (Suc i) (body (inputs i) w))"

text \<open>The world after \<open>k\<close> iterations of the body, started at frame \<open>i\<close>.\<close>

fun iterate :: "(frame_input \<Rightarrow> world \<Rightarrow> world) \<Rightarrow> (nat \<Rightarrow> frame_input) \<Rightarrow> nat \<Rightarrow> nat \<Rightarrow> world \<Rightarrow> world" where
  "iterate body inputs i 0 w = w"
| "iterate body inputs i (Suc k) w = iterate body inputs (Suc i) k (body (inputs i) w)"

subsection \<open>Setup steps shared by the programs\<close>

fun run_steps :: "(world \<Rightarrow> unit exec) list \<Rightarrow> world \<Rightarrow> unit exec" where
  "run_steps [] w = Ret () w"
| "run_steps (s # ss) w =
     (case s w of
        Ret u w' \<Rightarrow> run_steps ss w'
      | Pan m w' \<Rightarrow> Pan m w'
      | Hang \<Rightarrow> Hang)"

definition always :: "(world \<Rightarrow> world) \<Rightarrow> world \<Rightarrow> unit exec" where
  "always f w = Ret () (f w)"

text \<open>
  \<^verbatim>\<open>glfw.SetErrorCallback(errorCallback)
  if !glfw.Init() { panic("Can't init glfw!") }
  defer glfw.Terminate()
  glfw.WindowHint(...)  // five hints\<close>
\<close>

definition init_glfw :: "env \<Rightarrow> world \<Rightarrow> unit exec" where
  "init_glfw e w =
     (let w1 = issues [SetErrorCallback, GlfwInit] w in
      if \<not> glfw_Init e then Pan ''Can't init glfw!'' w1
      else Ret ()
        (issues [WindowHint ContextVersionMajor (HintInt 3),
                 WindowHint ContextVersionMinor (HintInt 2),
                 WindowHint OpenglProfile OpenglCoreProfile,
                 WindowHint OpenglForwardCompatible GlfwTrue,
                 WindowHint Resizable GlfwFalse]
           (defer_call Terminate w1)))"

text \<open>
  \<^verbatim>\<open>window, err = glfw.CreateWindow(800, 600, "Testing", nil, nil)
  if err != nil { panic(err) }
  defer window.Destroy()
  window.MakeContextCurrent()
  window.SetKeyCallback(handleKey)
  gl.Init()
  gl.GetError()\<close>
\<close>

definition create_window :: "env \<Rightarrow> world \<Rightarrow> unit exec" where
  "create_window e w =
     (let w1 = issue (CreateWindow 800 600 ''Testing'' False) w in
      case create_window_err e of
        Some err \<Rightarrow> Pan err w1
      | None \<Rightarrow> Ret ()
          (issues [MakeContextCurrent, SetKeyCallback, GlInit, GetError]
             (defer_call Destroy w1)))"

text \<open>
  \<^verbatim>\<open>vao = gl.GenVertexArray()
  defer vao.Delete()      // not in the triangle program
  vao.Bind()
  checkError("vertex array object")\<close>
\<close>

definition setup_vao :: "env \<Rightarrow> bool \<Rightarrow> world \<Rightarrow> world" where
  "setup_vao e deferDelete w =
     (let w1 = issue GenVertexArray w;
          w2 = (if deferDelete then defer_call DeleteVertexArray w1 else w1)
      in checkError e ''vertex array object'' (setup_error e ''vertex array object'')
           (issue BindVertexArray w2))"

text \<open>
  \<^verbatim>\<open>vbo = gl.GenBuffer()
  defer vbo.Delete()      // not in the triangle program
  vbo.Bind(gl.ARRAY_BUFFER)
  gl.BufferData(gl.ARRAY_BUFFER, int(glh.Sizeof(gl.FLOAT))*len(vertices), vertices, gl.STATIC_DRAW)
  checkError("vertex data")\<close>
  and the same for the element buffer of the textured quad. Of the data only the size
  in bytes is kept; \<open>glh.Sizeof\<close> of both element types is 4.
\<close>

definition setup_buffer ::
  "env \<Rightarrow> buffer_name \<Rightarrow> buffer_target \<Rightarrow> int \<Rightarrow> bool \<Rightarrow> string \<Rightarrow> world \<Rightarrow> world" where
  "setup_buffer e b target len deferDelete prefix w =
     (let w1 = issue (GenBuffer b) w;
          w2 = (if deferDelete then defer_call (DeleteBuffer b) w1 else w1)
      in checkError e prefix (setup_error e prefix)
           (issues [BindBuffer b target, BufferData target (4 * len)] w2))"

text \<open>
  \<^verbatim>\<open>sample, err := os.Open("sample.png")
  if err != nil { panic(err) }
  gl.ActiveTexture(gl.TEXTURE0)
  textures[0], err = createTexture(sample)
  if err != nil { panic(err) }
  defer textures[0].Delete()
  sample.Close()\<close>
\<close>

definition load_texture :: "env \<Rightarrow> string \<Rightarrow> texture_unit \<Rightarrow> world \<Rightarrow> unit exec" where
  "load_texture e name unit w =
     (let w1 = issue (OsOpen name) w in
      case os_Open e name of
        Inl err \<Rightarrow> Pan err w1
      | Inr sample \<Rightarrow>
          (case createTexture e sample (issue (ActiveTexture unit) w1) of
             Hang \<Rightarrow> Hang
           | Pan m w2 \<Rightarrow> Pan m w2
           | Ret res w2 \<Rightarrow>
               (case snd res of
                  Some err \<Rightarrow> Pan err w2
                | None \<Rightarrow> Ret () (issue (FileClose name) (defer_call (DeleteTexture (fst res)) w2)))))"

text \<open>
  \<^verbatim>\<open>vertexShader = gl.CreateShader(gl.VERTEX_SHADER)
  vertexShader.Source(vertexSource)
  vertexShader.Compile()
  if vertexShader.Get(gl.COMPILE_STATUS) != gl.TRUE {
      panic(fmt.Errorf("vertex shader compilation error: %s", vertexShader.GetInfoLog()))
  }
  checkError("vertex shader")\<close>
  and the same with \<open>fragment\<close> for the fragment shader.
\<close>

definition compile_shader :: "env \<Rightarrow> shader_kind \<Rightarrow> string \<Rightarrow> world \<Rightarrow> unit exec" where
  "compile_shader e k label w =
     (let w1 = issues [CreateShader k, ShaderSource k, CompileShader k, GetShaderStatus k] w in
      if compile_status e k \<noteq> GL_TRUE
      then Pan (label @ '' shader compilation error: '' @ shader_info_log e k)
             (issue (GetShaderInfoLog k) w1)
      else Ret () (checkError e (label @ '' shader'') (setup_error e (label @ '' shader'')) w1))"

text \<open>
  \<^verbatim>\<open>program = gl.CreateProgram()
  program.AttachShader(vertexShader)
  program.AttachShader(fragmentShader)
  program.BindFragDataLocation(0, "outColor")
  program.Link()
  program.Use()
  program.Validate()
  if program.Get(gl.VALIDATE_STATUS) != gl.TRUE {
      panic(fmt.Errorf("program error: %s", program.GetInfoLog()))
  }
  checkError("program")\<close>
\<close>

definition create_program :: "env \<Rightarrow> world \<Rightarrow> unit exec" where
  "create_program e w =
     (let w1 = issues [CreateProgram, AttachShader VERTEX_SHADER, AttachShader FRAGMENT_SHADER,
                       BindFragDataLocation 0 ''outColor'', LinkProgram, UseProgram,
                       ValidateProgram, GetValidateStatus] w in
      if validate_status e \<noteq> GL_TRUE
      then Pan (''program error: '' @ program_info_log e) (issue GetProgramInfoLog w1)
      else Ret () (checkError e ''program'' (setup_error e ''program'') w1))"

text \<open>
  \<^verbatim>\<open>posAttrib = program.GetAttribLocation("position")
  posAttrib.EnableArray()
  posAttrib.AttribPointer(3, gl.FLOAT, false, 8*int(glh.Sizeof(gl.FLOAT)), nil)
  checkError("position attrib pointer")\<close>
  with the component count, the stride and the offset counted in floats.
\<close>

definition setup_attrib :: "env \<Rightarrow> string \<Rightarrow> nat \<Rightarrow> int \<Rightarrow> int \<Rightarrow> world \<Rightarrow> world" where
  "setup_attrib e name n stride offset w =
     checkError e (name @ '' attrib pointer'') (setup_error e (name @ '' attrib pointer''))
       (issues [GetAttribLocation name, EnableArray name,
                AttribPointer name n (stride * 4) (offset * 4)] w)"

text \<open>
  \<^verbatim>\<open>texKittenLocation = program.GetUniformLocation("texKitten")
  texKittenLocation.Uniform1i(0)
  texPuppyLocation = program.GetUniformLocation("texPuppy")
  texPuppyLocation.Uniform1i(1)
  modelLocation = program.GetUniformLocation("model")
  viewLocation = program.GetUniformLocation("view")
  view = glm.LookAtV(eye, center, up)
  viewLocation.UniformMatrix4fv(false, view)
  projLocation = program.GetUniformLocation("proj")
  proj = glm.Perspective(45.0, 800.0/600.0, 1.0, 10.0)
  projLocation.UniformMatrix4fv(false, proj)\<close>
\<close>

definition setup_uniforms :: "rat \<times> rat \<times> rat \<Rightarrow> rat \<times> rat \<times> rat \<Rightarrow> world \<Rightarrow> world" where
  "setup_uniforms eye up w =
     issues [GetUniformLocation ''texKitten'', Uniform1i ''texKitten'' 0,
             GetUniformLocation ''texPuppy'', Uniform1i ''texPuppy'' 1,
             GetUniformLocation ''model'',
             GetUniformLocation ''view'',
             UniformMatrix4fv ''view'' (LookAtV eye (0, 0, 0) up),
             GetUniformLocation ''proj'',
             UniformMatrix4fv ''proj'' (Perspective 45 (800 / 600) 1 10)] w"

subsection \<open>The four programs\<close>

datatype program = ContextCreation | ReflectiveCube | Triangle | TexturedQuad

datatype outcome = Returned | Panicked string

text \<open>Decimal digits of a number, for \<open>fmt.Println(buffers)\<close>.\<close>

fun digits :: "nat \<Rightarrow> string" where
  "digits n =
     (if n < 10 then [char_of (48 + n)]
      else digits (n div 10) @ [char_of (48 + n mod 10)])"

declare digits.simps [simp del]

text \<open>
  The context-creation program, after the GLFW initialisation:
  \<^verbatim>\<open>monitor, err = glfw.GetPrimaryMonitor()
  if err != nil { panic(err) }
  window, err = glfw.CreateWindow(2560, 1600, "Testing", monitor, nil)
  if err != nil { panic(err) }
  window.MakeContextCurrent()
  window.SetKeyCallback(handleKey)
  gl.Init()
  buffers = make([]gl.Buffer, 1)
  gl.GenBuffers(buffers)
  fmt.Println(buffers)\<close>
\<close>

definition context_window :: "env \<Rightarrow> world \<Rightarrow> unit exec" where
  "context_window e w =
     (let w1 = issue GetPrimaryMonitor w in
      case primary_monitor_err e of
        Some err \<Rightarrow> Pan err w1
      | None \<Rightarrow>
          (let w2 = issue (CreateWindow 2560 1600 ''Testing'' True) w1 in
           case create_window_err e of
             Some err \<Rightarrow> Pan err w2
           | None \<Rightarrow> Ret ()
               (printf (''['' @ digits (gen_buffers e) @ '']'' @ newline)
                  (issues [MakeContextCurrent, SetKeyCallback, GlInit, GenBuffers 1] w2))))"

definition setup_context :: "env \<Rightarrow> world \<Rightarrow> unit exec" where
  "setup_context e = run_steps [init_glfw e, context_window e]"

text \<open>
  \<^verbatim>\<open>overrideColorLocation = program.GetUniformLocation("overrideColor")
  overrideColorLocation.Uniform3f(1.0, 1.0, 1.0)
  checkError("overrideColor uniform pointer")\<close>
\<close>

definition override_color_uniform :: "env \<Rightarrow> world \<Rightarrow> world" where
  "override_color_uniform e w =
     checkError e ''overrideColor uniform pointer'' (setup_error e ''overrideColor uniform pointer'')
       (issues [GetUniformLocation ''overrideColor'', Uniform3f ''overrideColor'' 1 1 1] w)"

text \<open>The reflective cube: 36 cube vertices and 6 floor vertices of 8 floats each.\<close>

definition setup_cube :: "env \<Rightarrow> world \<Rightarrow> unit exec" where
  "setup_cube e = run_steps
     [init_glfw e,
      create_window e,
      always (issue (Enable DEPTH_TEST)),
      always (setup_vao e True),
      always (setup_buffer e Vbo ARRAY_BUFFER 336 True ''vertex data''),
      load_texture e ''sample.png'' TEXTURE0,
      load_texture e ''sample2.png'' TEXTURE1,
      compile_shader e VERTEX_SHADER ''vertex'',
      compile_shader e FRAGMENT_SHADER ''fragment'',
      create_program e,
      always (setup_attrib e ''position'' 3 8 0),
      always (setup_attrib e ''color'' 3 8 3),
      always (setup_attrib e ''texcoord'' 2 8 6),
      always (override_color_uniform e),
      always (setup_uniforms (22 / 10, 32 / 10, 22 / 10) (0, 0, 5 / 10))]"

text \<open>The triangle program: 6 vertices of 5 floats each, no textures, no uniforms.\<close>

definition setup_triangle :: "env \<Rightarrow> world \<Rightarrow> unit exec" where
  "setup_triangle e = run_steps
     [init_glfw e,
      create_window e,
      always (setup_vao e False),
      always (setup_buffer e Vbo ARRAY_BUFFER 30 False ''vertex data''),
      compile_shader e VERTEX_SHADER ''vertex'',
      compile_shader e FRAGMENT_SHADER ''fragment'',
      create_program e,
      always (setup_attrib e ''position'' 2 5 0),
      always (setup_attrib e ''color'' 3 5 2)]"

text \<open>The textured quad: 4 vertices of 7 floats each and 6 element indices.\<close>

definition setup_quad :: "env \<Rightarrow> world \<Rightarrow> unit exec" where
  "setup_quad e = run_steps
     [init_glfw e,
      create_window e,
      always (setup_vao e True),
      always (setup_buffer e Vbo ARRAY_BUFFER 28 True ''vertex data''),
      always (setup_buffer e Ebo ELEMENT_ARRAY_BUFFER 6 True ''element data''),
      load_texture e ''sample.png'' TEXTURE0,
      load_texture e ''sample2.png'' TEXTURE1,
      compile_shader e VERTEX_SHADER ''vertex'',
      compile_shader e FRAGMENT_SHADER ''fragment'',
      create_program e,
      always (setup_attrib e ''position'' 2 7 0),
      always (setup_attrib e ''color'' 3 7 2),
      always (setup_attrib e ''texcoord'' 2 7 5),
      always (setup_uniforms (12 / 10, 12 / 10, 12 / 10) (0, 0, 1))]"

fun run_setup :: "program \<Rightarrow> env \<Rightarrow> world \<Rightarrow> unit exec" where
  "run_setup ContextCreation e = setup_context e"
| "run_setup ReflectiveCube e = setup_cube e"
| "run_setup Triangle e = setup_triangle e"
| "run_setup TexturedQuad e = setup_quad e"

text \<open>
  The loop bodies.
  \<^verbatim>\<open>diffTime = time.Since(startTime)
  model = glm.HomogRotate3DZ(math.Pi * float32(diffTime.Seconds()))\<close>
\<close>

definition rotation :: "frame_input \<Rightarrow> mat4" where
  "rotation inp = HomogRotate3DZ (PiTimesSeconds (since_start inp))"

definition frame_context :: "env \<Rightarrow> frame_input \<Rightarrow> world \<Rightarrow> world" where
  "frame_context e inp w = poll_events (events inp) (issue SwapBuffers w)"

definition frame_cube :: "env \<Rightarrow> frame_input \<Rightarrow> world \<Rightarrow> world" where
  "frame_cube e inp w =
     (let w1 = poll_events (events inp) w;
          w2 = issues [GetFramebufferSize,
                       Viewport 0 0 (fst (fb_size inp)) (snd (fb_size inp)),
                       ClearColor 1 1 1 1,
                       Clear [COLOR_BUFFER_BIT, DEPTH_BUFFER_BIT]] w1;
          model = rotation inp;
          w3 = issues [UniformMatrix4fv ''model'' model,
                       DrawArrays 0 36,
                       Enable STENCIL_TEST,
                       StencilFunc ALWAYS 1 0xFF,
                       StencilOp KEEP KEEP REPLACE,
                       StencilMask 0xFF,
                       DepthMask False,
                       Clear [STENCIL_BUFFER_BIT],
                       DrawArrays 36 6,
                       StencilFunc EQUAL 1 0xFF,
                       StencilMask 0x00,
                       DepthMask True,
                       UniformMatrix4fv ''model''
                         (Mul4 (Mul4 model (Translate3D 0 0 (- 1))) (Scale3D 1 1 (- 1))),
                       Uniform3f ''overrideColor'' (3 / 10) (3 / 10) (3 / 10),
                       DrawArrays 0 36,
                       Uniform3f ''overrideColor'' 1 1 1,
                       Disable STENCIL_TEST] w2;
          w4 = checkError e ''main loop'' (gl_error inp) w3
      in issue SwapBuffers w4)"

definition frame_triangle :: "env \<Rightarrow> frame_input \<Rightarrow> world \<Rightarrow> world" where
  "frame_triangle e inp w =
     (let w1 = poll_events (events inp) w;
          w2 = issues [GetFramebufferSize,
                       Viewport 0 0 (fst (fb_size inp)) (snd (fb_size inp)),
                       ClearColor 0 0 0 1,
                       Clear [COLOR_BUFFER_BIT],
                       DrawArrays 0 6] w1;
          w3 = checkError e ''main loop'' (gl_error inp) w2
      in issue SwapBuffers w3)"

definition frame_quad :: "env \<Rightarrow> frame_input \<Rightarrow> world \<Rightarrow> world" where
  "frame_quad e inp w =
     (let w1 = poll_events (events inp) w;
          model = rotation inp;
          w2 = issues [UniformMatrix4fv ''model'' model,
                       GetFramebufferSize,
                       Viewport 0 0 (fst (fb_size inp)) (snd (fb_size inp)),
                       ClearColor 0 0 0 1,
                       Clear [COLOR_BUFFER_BIT],
                       DrawElements 6 UNSIGNED_INT] w1;
          w3 = checkError e ''main loop'' (gl_error inp) w2
      in issue SwapBuffers w3)"

fun frame :: "program \<Rightarrow> env \<Rightarrow> frame_input \<Rightarrow> world \<Rightarrow> world" where
  "frame ContextCreation e = frame_context e"
| "frame ReflectiveCube e = frame_cube e"
| "frame Triangle e = frame_triangle e"
| "frame TexturedQuad e = frame_quad e"

text \<open>
  \<open>main\<close>: the setup, then the render loop, then the deferred calls. A panic runs the
  deferred calls too, and then the Go runtime prints the panic's message and ends the
  process; \<open>None\<close> is a run that never ends.
\<close>

definition main :: "program \<Rightarrow> env \<Rightarrow> (outcome \<times> world) option" where
  "main p e =
     (case run_setup p e w0 of
        Hang \<Rightarrow> None
      | Pan m w \<Rightarrow> Some (Panicked m, run_deferred w)
      | Ret u w \<Rightarrow>
          (case render_loop (frame p e) (frames e) 0 w of
             None \<Rightarrow> None
           | Some w' \<Rightarrow> Some (Returned, run_deferred w')))"

subsection \<open>Notions used to state the properties\<close>

text \<open>The calls issued between an earlier world and a later one.\<close>

definition new_calls :: "world \<Rightarrow> world \<Rightarrow> call list" where
  "new_calls w w' = drop (length (calls w)) (calls w')"

text \<open>
  The part of the GL state the claims speak of, read off the log: a capability is what
  the last \<open>gl.Enable\<close> or \<open>gl.Disable\<close> of it made it (the stencil test and the depth test
  start disabled), a uniform holds the value last stored in it.
\<close>

definition cap_enabled :: "cap \<Rightarrow> call list \<Rightarrow> bool" where
  "cap_enabled c cs =
     foldl (\<lambda>on x. if x = Enable c then True else if x = Disable c then False else on) False cs"

definition uniform3f_value :: "string \<Rightarrow> call list \<Rightarrow> (rat \<times> rat \<times> rat) option" where
  "uniform3f_value name cs =
     foldl (\<lambda>v x. case x of
                     Uniform3f n a b c \<Rightarrow> if n = name then Some (a, b, c) else v
                   | _ \<Rightarrow> v) None cs"

text \<open>
  The calls the stencil recipe is made of: draws of vertex arrays, the stencil test
  switch, the stencil function, operation and write mask, the depth write mask, and a
  clear that includes the stencil buffer.
\<close>

definition stencil_recipe_call :: "call \<Rightarrow> bool" where
  "stencil_recipe_call c =
     (case c of
        DrawArrays first count \<Rightarrow> True
      | Enable k \<Rightarrow> k = STENCIL_TEST
      | Disable k \<Rightarrow> k = STENCIL_TEST
      | StencilFunc f r m \<Rightarrow> True
      | StencilOp sfail dpfail dppass \<Rightarrow> True
      | StencilMask m \<Rightarrow> True
      | DepthMask flag \<Rightarrow> True
      | Clear bits \<Rightarrow> STENCIL_BUFFER_BIT \<in> set bits
      | _ \<Rightarrow> False)"

text \<open>The number of buffer objects a log creates.\<close>

definition buffers_generated :: "call \<Rightarrow> nat" where
  "buffers_generated c = (case c of GenBuffer b \<Rightarrow> 1 | GenBuffers n \<Rightarrow> n | _ \<Rightarrow> 0)"

definition buffers_created :: "call list \<Rightarrow> nat" where
  "buffers_created cs = sum_list (map buffers_generated cs)"

definition buffers_of_setup :: "program \<Rightarrow> env \<Rightarrow> nat option" where
  "buffers_of_setup p e =
     (case run_setup p e w0 of Ret u w \<Rightarrow> Some (buffers_created (calls w)) | _ \<Rightarrow> None)"

text \<open>The files a log opens, in order.\<close>

definition opened_file :: "call \<Rightarrow> string list" where
  "opened_file c = (case c of OsOpen name \<Rightarrow> [name] | _ \<Rightarrow> [])"

definition files_opened :: "call list \<Rightarrow> string list" where
  "files_opened cs = concat (map opened_file cs)"

text \<open>
  The layout of an image whose rows lie one after the other in \<open>Pix\<close>, each \<open>Stride\<close> bytes
  long and starting with the \<open>4 * width\<close> bytes of its pixels. The PNG decoder allocates
  its images with \<open>Stride = 4 * width\<close> and \<open>len(Pix) = Stride * height\<close>, which is the
  instance without padding.
\<close>

definition row_layout :: "NRGBA \<Rightarrow> bool" where
  "row_layout img =
     (0 \<le> Dx (Rect img) \<and> 0 \<le> Dy (Rect img) \<and> 4 * Dx (Rect img) \<le> Stride img \<and>
      int (length (Pix img)) = Stride img * Dy (Rect img))"

definition decoder_row_layout :: "env \<Rightarrow> bool" where
  "decoder_row_layout e = (\<forall>r img. png_Decode e r = Inr (NRGBAImage img) \<longrightarrow> row_layout img)"

text \<open>Row \<open>j\<close> of a byte array whose rows start \<open>stride\<close> bytes apart: its first \<open>len\<close> bytes.\<close>

definition row :: "nat \<Rightarrow> nat \<Rightarrow> nat \<Rightarrow> 'a list \<Rightarrow> 'a list" where
  "row len stride j xs = take len (drop (j * stride) xs)"

text \<open>The checks of the setup, as conditions on what the outside answers.\<close>

definition texture_fails :: "env \<Rightarrow> string \<Rightarrow> bool" where
  "texture_fails e name =
     (case os_Open e name of
        Inl err \<Rightarrow> True
      | Inr r \<Rightarrow> (case png_Decode e r of Inl err \<Rightarrow> True | Inr img \<Rightarrow> img = OtherImage))"

definition shaders_fail :: "env \<Rightarrow> bool" where
  "shaders_fail e =
     (compile_status e VERTEX_SHADER \<noteq> GL_TRUE \<or> compile_status e FRAGMENT_SHADER \<noteq> GL_TRUE \<or>
      validate_status e \<noteq> GL_TRUE)"

fun setup_failure :: "program \<Rightarrow> env \<Rightarrow> bool" where
  "setup_failure ContextCreation e =
     (\<not> glfw_Init e \<or> primary_monitor_err e \<noteq> None \<or> create_window_err e \<noteq> None)"
| "setup_failure ReflectiveCube e =
     (\<not> glfw_Init e \<or> create_window_err e \<noteq> None \<or> texture_fails e ''sample.png'' \<or>
      texture_fails e ''sample2.png'' \<or> shaders_fail e)"
| "setup_failure Triangle e =
     (\<not> glfw_Init e \<or> create_window_err e \<noteq> None \<or> shaders_fail e)"
| "setup_failure TexturedQuad e =
     (\<not> glfw_Init e \<or> create_window_err e \<noteq> None \<or> texture_fails e ''sample.png'' \<or>
      texture_fails e ''sample2.png'' \<or> shaders_fail e)"

text \<open>
  The calls only a render loop makes, and the worlds in which no loop iteration has
  started: neither the log nor the deferred calls hold such a call.
\<close>

definition loop_call :: "call \<Rightarrow> bool" where
  "loop_call c = (c = SwapBuffers \<or> c = PollEvents)"

definition no_frame :: "world \<Rightarrow> bool" where
  "no_frame w = (\<not> list_ex loop_call (calls w) \<and> \<not> list_ex loop_call (deferred w))"

definition uses_textures :: "program \<Rightarrow> bool" where
  "uses_textures p = (p = ReflectiveCube \<or> p = TexturedQuad)"

text \<open>A world with its standard output left out.\<close>

definition forget_stdout :: "world \<Rightarrow> world" where
  "forget_stdout w = w\<lparr>stdout := []\<rparr>"

text \<open>
  A setup step that keeps an invariant \<open>I\<close> of the world and succeeds exactly when
  the condition \<open>g\<close> on the outside's answers holds, and panics otherwise.
\<close>

definition step_spec :: "(world \<Rightarrow> bool) \<Rightarrow> bool \<Rightarrow> (world \<Rightarrow> unit exec) \<Rightarrow> bool" where
  "step_spec I g s =
     (\<forall>w. I w \<longrightarrow>
        (if g then (\<exists>w'. s w = Ret () w' \<and> I w') else (\<exists>m w'. s w = Pan m w' \<and> I w')))"

text \<open>
  OpenGL's rule for \<open>glValidateProgram\<close>: a program object whose validation succeeds is
  guaranteed to execute, and a program object that did not link cannot execute. A driver
  therefore never reports VALIDATE_STATUS true for a program whose link failed.
\<close>

definition validation_reflects_link :: "env \<Rightarrow> bool" where
  "validation_reflects_link e = (link_status e \<noteq> GL_TRUE \<longrightarrow> validate_status e \<noteq> GL_TRUE)"

definition uses_shaders :: "program \<Rightarrow> bool" where
  "uses_shaders p = (p = ReflectiveCube \<or> p = Triangle \<or> p = TexturedQuad)"




subsection \<open>Example inputs\<close>

text \<open>An image one pixel wide and two high, a frame in which Escape is pressed, and an
  outside world in which every setup call succeeds.\<close>

definition img12 :: NRGBA where
  "img12 = \<lparr>Pix = [1, 2, 3, 4, 5, 6, 7, 8], Stride = 4,
            Rect = \<lparr>MinX = 0, MinY = 0, MaxX = 1, MaxY = 2\<rparr>\<rparr>"

definition escape_frame :: frame_input where
  "escape_frame = \<lparr>events = [KeyEvent 256 9 1 0], fb_size = (800, 600),
                   since_start = 16000000, gl_error = 0\<rparr>"

definition env_ok :: env where
  "env_ok = \<lparr>glfw_Init = True, primary_monitor_err = None, create_window_err = None,
             os_Open = (\<lambda>name. if name = ''sample.png'' \<or> name = ''sample2.png'' then Inr []
                               else Inl ''no such file or directory''),
             png_Decode = (\<lambda>r. Inr (NRGBAImage img12)),
             gen_texture = Suc, gen_buffers = 1,
             compile_status = (\<lambda>k. 1), shader_info_log = (\<lambda>k. []),
             link_status = 1, validate_status = 1, program_info_log = [],
             setup_error = (\<lambda>prefix. 0), ErrorString = (\<lambda>code. None),
             frames = (\<lambda>i. escape_frame)\<rparr>"

section \<open>Proofs\<close>

subsection \<open>The key callback and the render loop\<close>

lemma handleKey_escape: "ShouldClose (handleKey w KeyEscape s Press mods)"
  by (simp add: handleKey_def)

lemma handleKey_other: "action \<noteq> Press \<or> k \<noteq> KeyEscape \<Longrightarrow> handleKey w k s action mods = w"
  by (auto simp: handleKey_def)

lemma handleKey_mono: "ShouldClose w \<Longrightarrow> ShouldClose (handleKey w k s action mods)"
  by (simp add: handleKey_def)

lemma dispatch_mono: "ShouldClose w \<Longrightarrow> ShouldClose (dispatch ev w)"
  by (cases ev) (simp_all add: handleKey_mono)

lemma fold_dispatch_mono: "ShouldClose w \<Longrightarrow> ShouldClose (fold dispatch evs w)"
  by (induction evs arbitrary: w) (simp_all add: dispatch_mono)

lemma fold_dispatch_escape:
  "KeyEvent KeyEscape s Press mods \<in> set evs \<Longrightarrow> ShouldClose (fold dispatch evs w)"
proof (induction evs arbitrary: w)
  case Nil
  then show ?case by simp
next
  case (Cons ev evs)
  show ?case
  proof (cases "ev = KeyEvent KeyEscape s Press mods")
    case True
    then have "ShouldClose (dispatch ev w)" by (simp add: handleKey_escape)
    then show ?thesis by (simp add: fold_dispatch_mono)
  next
    case False
    with Cons.prems have "KeyEvent KeyEscape s Press mods \<in> set evs" by simp
    then show ?thesis by (simp add: Cons.IH)
  qed
qed

lemma render_loop_exit: "ShouldClose w \<Longrightarrow> render_loop body inputs i w = Some w"
  by (subst render_loop.simps) simp

lemma render_loop_step:
  "\<not> ShouldClose w \<Longrightarrow>
   render_loop body inputs i w = render_loop body inputs (Suc i) (body (inputs i) w)"
  by (subst render_loop.simps) simp

lemma render_loop_returns:
  "ShouldClose (iterate body inputs i k w) \<Longrightarrow>
   \<exists>j\<le>k. render_loop body inputs i w = Some (iterate body inputs i j w) \<and>
          ShouldClose (iterate body inputs i j w) \<and>
          (\<forall>l<j. \<not> ShouldClose (iterate body inputs i l w))"
proof (induction k arbitrary: i w)
  case 0
  then have "render_loop body inputs i w = Some (iterate body inputs i 0 w)"
    by (simp add: render_loop_exit)
  with 0 show ?case by auto
next
  case (Suc k)
  show ?case
  proof (cases "ShouldClose w")
    case True
    then have "render_loop body inputs i w = Some (iterate body inputs i 0 w)"
      by (simp add: render_loop_exit)
    with True show ?thesis by auto
  next
    case False
    from Suc.prems have "ShouldClose (iterate body inputs (Suc i) k (body (inputs i) w))" by simp
    from Suc.IH[OF this] obtain j where j: "j \<le> k"
      "render_loop body inputs (Suc i) (body (inputs i) w) = Some (iterate body inputs (Suc i) j (body (inputs i) w))"
      "ShouldClose (iterate body inputs (Suc i) j (body (inputs i) w))"
      "\<forall>l<j. \<not> ShouldClose (iterate body inputs (Suc i) l (body (inputs i) w))"
      by blast
    have "\<forall>l<Suc j. \<not> ShouldClose (iterate body inputs i l w)"
    proof (intro allI impI)
      fix l assume "l < Suc j"
      then show "\<not> ShouldClose (iterate body inputs i l w)"
        using False j(4) by (cases l) auto
    qed
    moreover have "render_loop body inputs i w = Some (iterate body inputs i (Suc j) w)"
      using False j(2) by (simp add: render_loop_step)
    moreover have "ShouldClose (iterate body inputs i (Suc j) w)" using j(3) by simp
    ultimately show ?thesis using j(1) by (intro exI[of _ "Suc j"]) simp
  qed
qed

lemma render_loop_sound:
  assumes "render_loop body inputs i w = Some w'"
  shows "\<exists>k. w' = iterate body inputs i k w \<and> ShouldClose w' \<and>
       (\<forall>l<k. \<not> ShouldClose (iterate body inputs i l w))"
  using assms
proof (rule render_loop.raw_induct[rotated 1, where P = "\<lambda>body inputs i w w'.
    \<exists>k. w' = iterate body inputs i k w \<and> ShouldClose w' \<and>
       (\<forall>l<k. \<not> ShouldClose (iterate body inputs i l w))"])
  fix f body inputs i w w'
  assume IH: "\<And>body inputs i w y. f body inputs i w = Some y \<Longrightarrow>
      \<exists>k. y = iterate body inputs i k w \<and> ShouldClose y \<and>
       (\<forall>l<k. \<not> ShouldClose (iterate body inputs i l w))"
    and step: "(if ShouldClose w then Some w else f body inputs (Suc i) (body (inputs i) w)) = Some w'"
  show "\<exists>k. w' = iterate body inputs i k w \<and> ShouldClose w' \<and>
       (\<forall>l<k. \<not> ShouldClose (iterate body inputs i l w))"
  proof (cases "ShouldClose w")
    case True
    with step have "w' = w" by simp
    with True show ?thesis by (intro exI[of _ 0]) simp
  next
    case False
    with step have "f body inputs (Suc i) (body (inputs i) w) = Some w'" by simp
    from IH[OF this] obtain k where k: "w' = iterate body inputs (Suc i) k (body (inputs i) w)"
      "ShouldClose w'" "\<forall>l<k. \<not> ShouldClose (iterate body inputs (Suc i) l (body (inputs i) w))"
      by blast
    have "\<forall>l<Suc k. \<not> ShouldClose (iterate body inputs i l w)"
    proof (intro allI impI)
      fix l assume "l < Suc k"
      then show "\<not> ShouldClose (iterate body inputs i l w)"
        using False k(3) by (cases l) auto
    qed
    with k(1,2) show ?thesis by (intro exI[of _ "Suc k"]) simp
  qed
qed

subsection \<open>What a frame adds to the log\<close>

lemma calls_handleKey:
  "\<exists>n. calls (handleKey w k s action mods) = calls w @ replicate n (SetShouldClose True)"
proof (cases "action = Press \<and> k = KeyEscape")
  case True
  then have "calls (handleKey w k s action mods) = calls w @ replicate 1 (SetShouldClose True)"
    by (simp add: handleKey_def issue_def)
  then show ?thesis by blast
next
  case False
  then have "calls (handleKey w k s action mods) = calls w @ replicate 0 (SetShouldClose True)"
    by (auto simp: handleKey_def)
  then show ?thesis by blast
qed

lemma calls_dispatch:
  "\<exists>n. calls (dispatch ev w) = calls w @ replicate n (SetShouldClose True)"
proof (cases ev)
  case (KeyEvent k s action mods)
  then show ?thesis using calls_handleKey[of w k s action mods] by simp
next
  case CloseRequest
  then have "calls (dispatch ev w) = calls w @ replicate 0 (SetShouldClose True)" by simp
  then show ?thesis by blast
qed

lemma calls_fold_dispatch:
  "\<exists>n. calls (fold dispatch evs w) = calls w @ replicate n (SetShouldClose True)"
proof (induction evs arbitrary: w)
  case Nil
  have "calls (fold dispatch [] w) = calls w @ replicate 0 (SetShouldClose True)" by simp
  then show ?case by blast
next
  case (Cons ev evs)
  obtain n where n: "calls (dispatch ev w) = calls w @ replicate n (SetShouldClose True)"
    using calls_dispatch by blast
  obtain m where m: "calls (fold dispatch evs (dispatch ev w)) =
      calls (dispatch ev w) @ replicate m (SetShouldClose True)"
    using Cons.IH by blast
  have "calls (fold dispatch (ev # evs) w) = calls w @ replicate (n + m) (SetShouldClose True)"
    using n m by (simp add: replicate_add)
  then show ?case by blast
qed

lemma calls_poll_events:
  "\<exists>n. calls (poll_events evs w) = calls w @ PollEvents # replicate n (SetShouldClose True)"
  using calls_fold_dispatch[of evs "issue PollEvents w"] by (simp add: poll_events_def issue_def)

lemma handleKey_rest:
  "stdout (handleKey w k s action mods) = stdout w \<and> deferred (handleKey w k s action mods) = deferred w"
  by (simp add: handleKey_def issue_def)

lemma dispatch_rest: "stdout (dispatch ev w) = stdout w \<and> deferred (dispatch ev w) = deferred w"
  by (cases ev) (simp_all add: handleKey_rest)

lemma fold_dispatch_rest:
  "stdout (fold dispatch evs w) = stdout w \<and> deferred (fold dispatch evs w) = deferred w"
  by (induction evs arbitrary: w) (simp_all add: dispatch_rest)

lemma poll_events_rest:
  "stdout (poll_events evs w) = stdout w \<and> deferred (poll_events evs w) = deferred w"
  by (simp add: poll_events_def fold_dispatch_rest issue_def)

lemma poll_events_mono: "ShouldClose w \<Longrightarrow> ShouldClose (poll_events evs w)"
  by (simp add: poll_events_def fold_dispatch_mono issue_def)

lemma poll_events_escape:
  "KeyEvent KeyEscape s Press mods \<in> set evs \<Longrightarrow> ShouldClose (poll_events evs w)"
  by (simp add: poll_events_def fold_dispatch_escape)

lemma checkError_fields:
  "ShouldClose (checkError e prefix glError w) = ShouldClose w"
  "deferred (checkError e prefix glError w) = deferred w"
  "calls (checkError e prefix glError w) = calls w @ [GetError]"
  by (simp_all add: checkError_def issue_def printf_def Let_def split: option.splits)

lemma checkError_stdout:
  "glError = NO_ERROR \<Longrightarrow> stdout (checkError e prefix glError w) = stdout w"
  "glError \<noteq> NO_ERROR \<Longrightarrow> \<exists>msg. stdout (checkError e prefix glError w) = stdout w @ [msg]"
  by (simp_all add: checkError_def issue_def printf_def Let_def split: option.splits)

lemma frame_cube_calls:
  "\<exists>n. new_calls w (frame_cube e inp w) =
     PollEvents # replicate n (SetShouldClose True) @
     [GetFramebufferSize, Viewport 0 0 (fst (fb_size inp)) (snd (fb_size inp)),
      ClearColor 1 1 1 1, Clear [COLOR_BUFFER_BIT, DEPTH_BUFFER_BIT],
      UniformMatrix4fv ''model'' (rotation inp),
      DrawArrays 0 36,
      Enable STENCIL_TEST,
      StencilFunc ALWAYS 1 0xFF,
      StencilOp KEEP KEEP REPLACE,
      StencilMask 0xFF,
      DepthMask False,
      Clear [STENCIL_BUFFER_BIT],
      DrawArrays 36 6,
      StencilFunc EQUAL 1 0xFF,
      StencilMask 0x00,
      DepthMask True,
      UniformMatrix4fv ''model'' (Mul4 (Mul4 (rotation inp) (Translate3D 0 0 (- 1))) (Scale3D 1 1 (- 1))),
      Uniform3f ''overrideColor'' (3 / 10) (3 / 10) (3 / 10),
      DrawArrays 0 36,
      Uniform3f ''overrideColor'' 1 1 1,
      Disable STENCIL_TEST,
      GetError,
      SwapBuffers]"
proof -
  obtain n where n: "calls (poll_events (events inp) w) =
      calls w @ PollEvents # replicate n (SetShouldClose True)"
    using calls_poll_events by blast
  show ?thesis
    by (rule exI[of _ n])
       (simp add: new_calls_def frame_cube_def Let_def issue_def issues_def checkError_fields n)
qed

lemma filter_recipe_replicate:
  "filter stencil_recipe_call (replicate n (SetShouldClose True)) = []"
  by (simp add: stencil_recipe_call_def)

subsection \<open>The flip loop\<close>

lemma length_copy_into:
  "dest + n \<le> length data \<Longrightarrow> length (copy_into data dest n src) = length data"
  by (auto simp: copy_into_def Let_def min_def)

lemma row_copy_same:
  "dest = j * n \<Longrightarrow> dest + n \<le> length data \<Longrightarrow> n \<le> length src \<Longrightarrow>
   row n n j (copy_into data dest n src) = take n src"
  by (simp add: row_def copy_into_def Let_def min_def)

lemma row_copy_after:
  "dest + n \<le> j * n \<Longrightarrow> dest + n \<le> length data \<Longrightarrow> n \<le> length src \<Longrightarrow>
   row n n j (copy_into data dest n src) = row n n j data"
  by (simp add: row_def copy_into_def Let_def min_def)

lemma take_slice_row:
  "n \<le> s \<Longrightarrow> take n (slice pix (int (k * s)) (int (k * s) + int s)) = row n s k pix"
  by (simp add: slice_def row_def min_def flip: of_nat_mult)

lemma flip_loop_rows:
  assumes "n \<le> s" "length pix = s * H" "length data = n * H" "k \<le> H"
    and "src = int (k * s)" "dest = int ((H - k) * n) - int n"
  shows "\<exists>data'. flip_loop pix (int s) (int n) src dest data = Some (Inr data') \<and>
           length data' = length data \<and>
           (\<forall>j<H. row n n j data' =
              (if j < H - k then row n s (H - 1 - j) pix else row n n j data))"
  using assms
proof (induction "H - k" arbitrary: k data src dest)
  case 0
  then have "k = H" by simp
  with 0 have "\<not> src < int (length pix)" by simp
  then have "flip_loop pix (int s) (int n) src dest data = Some (Inr data)"
    by (subst flip_loop.simps) simp
  with \<open>k = H\<close> show ?case by simp
next
  case (Suc m)
  then have kH: "k < H" and m: "m = H - Suc k" by simp_all
  show ?case
  proof (cases "s = 0")
    case True
    with Suc.prems have "length pix = 0" "n = 0" by simp_all
    from Suc.prems True have "\<not> src < int (length pix)" by simp
    then have "flip_loop pix (int s) (int n) src dest data = Some (Inr data)"
      by (subst flip_loop.simps) simp
    with \<open>n = 0\<close> show ?thesis by (simp add: row_def)
  next
    case False
    then have s: "0 < s" by simp
    let ?d = "(H - Suc k) * n"
    have "H - k = Suc (H - Suc k)" using kH by simp
    then have hk: "(H - k) * n = ?d + n" by simp
    have dest: "dest = int ?d" using Suc.prems(6) hk by simp
    have nd: "nat dest = ?d" by (simp only: dest nat_int)
    have ks: "k * s + s \<le> s * H" using kH
      by (metis Suc_leI mult.commute mult_Suc mult_le_mono1 add.commute)
    have dn: "?d + n \<le> n * H"
    proof -
      have "?d + n = (H - k) * n" using hk by simp
      also have "\<dots> \<le> H * n" by (simp add: mult_le_mono1)
      finally show ?thesis by (simp add: mult.commute)
    qed
    have lt: "src < int (length pix)"
    proof -
      have "k * s < H * s" using kH s by simp
      then show ?thesis using Suc.prems by (simp add: mult.commute)
    qed
    have ok1: "slice_ok dest (dest + int n) (length data)"
      using dn Suc.prems(3) by (simp add: slice_ok_def dest flip: of_nat_mult of_nat_add)
    have ok2: "slice_ok src (src + int s) (length pix)"
      using ks Suc.prems(2,5) by (simp add: slice_ok_def flip: of_nat_mult of_nat_add)
    let ?src = "slice pix src (src + int s)"
    let ?data1 = "copy_into data (nat dest) (nat (int n)) ?src"
    have len_src: "length ?src = s"
      using ks Suc.prems(2,5) by (simp add: slice_def flip: of_nat_mult of_nat_add)
    have len1: "length ?data1 = length data"
      using dn Suc.prems(3) by (simp add: length_copy_into nd)
    have unfold: "flip_loop pix (int s) (int n) src dest data =
        flip_loop pix (int s) (int n) (src + int s) (dest - int n) ?data1"
      using lt ok1 ok2 by (subst flip_loop.simps) simp
    have src': "src + int s = int (Suc k * s)" using Suc.prems(5) by (simp add: algebra_simps)
    have dest': "dest - int n = int ((H - Suc k) * n) - int n" by (simp add: dest)
    from Suc.hyps(1)[OF m Suc.prems(1,2) _ _ src' dest', of ?data1] len1 Suc.prems(3) kH
    obtain data' where d': "flip_loop pix (int s) (int n) (src + int s) (dest - int n) ?data1 = Some (Inr data')"
      "length data' = length ?data1"
      "\<forall>j<H. row n n j data' = (if j < H - Suc k then row n s (H - 1 - j) pix else row n n j ?data1)"
      by auto
    have rows: "\<forall>j<H. row n n j data' =
              (if j < H - k then row n s (H - 1 - j) pix else row n n j data)"
    proof (intro allI impI)
      fix j assume jH: "j < H"
      consider (lt) "j < H - Suc k" | (eq) "j = H - Suc k" | (gt) "H - k \<le> j"
        using kH by linarith
      then show "row n n j data' =
              (if j < H - k then row n s (H - 1 - j) pix else row n n j data)"
      proof cases
        case lt
        then have "j < H - k" by simp
        moreover have "row n n j data' = row n s (H - 1 - j) pix"
          using d'(3) jH lt by simp
        ultimately show ?thesis by simp
      next
        case eq
        then have "\<not> j < H - Suc k" by simp
        then have "row n n j data' = row n n j ?data1" using d'(3) jH by simp
        also have "\<dots> = take n ?src"
          using dn Suc.prems(3) len_src Suc.prems(1) eq
          by (simp add: nd row_copy_same)
        also have "\<dots> = row n s k pix"
          using Suc.prems(1,5) take_slice_row[of n s pix k] by simp
        finally have "row n n j data' = row n s k pix" .
        moreover have "j < H - k" "H - 1 - j = k" using eq kH by simp_all
        ultimately show ?thesis by simp
      next
        case gt
        then have "\<not> j < H - Suc k" by simp
        then have "row n n j data' = row n n j ?data1" using d'(3) jH by simp
        also have "\<dots> = row n n j data"
        proof -
          have "?d + n = (H - k) * n" using hk by simp
          also have "\<dots> \<le> j * n" using gt by (simp add: mult_le_mono1)
          finally have "?d + n \<le> j * n" .
          then show ?thesis
            using dn Suc.prems(3) len_src Suc.prems(1)
            by (simp add: nd row_copy_after)
        qed
        finally have "row n n j data' = row n n j data" .
        moreover have "\<not> j < H - k" using gt by simp
        ultimately show ?thesis by simp
      qed
    qed
    show ?thesis using unfold d'(1,2) len1 rows by simp
  qed
qed

lemma createTexture_row_layout:
  assumes dec: "png_Decode e r = Inr (NRGBAImage img)" and lay: "row_layout img"
  shows "\<exists>data. createTexture e r w =
           Ret (gen_texture e (length (filter (\<lambda>c. c = GenTexture) (calls w))), None)
             (issue (TexImage2D (Dx (Rect img)) (Dy (Rect img)) data)
               (issues [GenTexture,
                        BindTexture (gen_texture e (length (filter (\<lambda>c. c = GenTexture) (calls w)))),
                        TexParameterf TEXTURE_MAG_FILTER, TexParameterf TEXTURE_MIN_FILTER]
                  (issue PngDecode w))) \<and>
           length data = nat (Dx (Rect img) * Dy (Rect img) * 4) \<and>
           (\<forall>j < nat (Dy (Rect img)).
              row (nat (4 * Dx (Rect img))) (nat (4 * Dx (Rect img))) j data =
              row (nat (4 * Dx (Rect img))) (nat (Stride img)) (nat (Dy (Rect img)) - 1 - j) (Pix img))"
proof -
  let ?W = "Dx (Rect img)" and ?H = "Dy (Rect img)"
  let ?n = "nat (4 * ?W)" and ?s = "nat (Stride img)" and ?h = "nat ?H"
  let ?data = "replicate (nat (?W * ?H * 4)) (0 :: byte)"
  from lay have W: "0 \<le> ?W" and H: "0 \<le> ?H" and st: "4 * ?W \<le> Stride img"
    and len: "int (length (Pix img)) = Stride img * ?H"
    by (simp_all add: row_layout_def)
  have S: "0 \<le> Stride img" using st W by linarith
  have ns: "?n \<le> ?s" using st W by simp
  have lp: "length (Pix img) = ?s * ?h"
  proof -
    have "int (length (Pix img)) = int (?s * ?h)" using len S H by simp
    then show ?thesis by (simp only: of_nat_eq_iff)
  qed
  have ld: "length ?data = ?n * ?h"
  proof -
    have "int (nat (?W * ?H * 4)) = int (?n * ?h)" using W H by simp
    then show ?thesis by (simp only: of_nat_eq_iff length_replicate)
  qed
  have nonneg: "\<not> ?W * ?H * 4 < 0" using W H by (simp add: not_less)
  have src: "(0::int) = int (0 * ?s)" by simp
  have dest: "int (length ?data) - ?W * 4 = int ((?h - 0) * ?n) - int ?n"
    using ld W by (simp add: mult.commute)
  from flip_loop_rows[OF ns lp ld _ src dest]
  obtain data' where d: "flip_loop (Pix img) (int ?s) (int ?n) 0 (int (length ?data) - ?W * 4) ?data = Some (Inr data')"
    "length data' = length ?data"
    "\<forall>j<?h. row ?n ?n j data' = (if j < ?h - 0 then row ?n ?s (?h - 1 - j) (Pix img) else row ?n ?n j ?data)"
    by auto
  have istr: "int ?s = Stride img" using S by simp
  have inn: "int ?n = ?W * 4" using W by simp
  have run: "flip_loop (Pix img) (Stride img) (?W * 4) 0 (int (length ?data) - ?W * 4) ?data = Some (Inr data')"
    using d(1) by (simp only: istr inn)
  have "createTexture e r w =
           Ret (gen_texture e (length (filter (\<lambda>c. c = GenTexture) (calls w))), None)
             (issue (TexImage2D ?W ?H data')
               (issues [GenTexture,
                        BindTexture (gen_texture e (length (filter (\<lambda>c. c = GenTexture) (calls w)))),
                        TexParameterf TEXTURE_MAG_FILTER, TexParameterf TEXTURE_MIN_FILTER]
                  (issue PngDecode w)))"
    unfolding createTexture_def Let_def using dec nonneg run
    by (simp add: issue_def)
  moreover have "length data' = nat (?W * ?H * 4)" using d(2) by simp
  moreover have "\<forall>j<?h. row ?n ?n j data' = row ?n ?s (?h - 1 - j) (Pix img)"
    using d(3) by simp
  ultimately show ?thesis by blast
qed

subsection \<open>The setup, step by step\<close>

lemma run_steps_Ret_Cons:
  "run_steps (s # ss) w = Ret u w' \<longleftrightarrow> (\<exists>w1. s w = Ret () w1 \<and> run_steps ss w1 = Ret u w')"
  by (cases "s w") auto

lemma run_steps_Ret_Nil: "run_steps [] w = Ret u w' \<longleftrightarrow> w' = w"
  by auto

lemma always_Ret: "always f w = Ret u w' \<longleftrightarrow> w' = f w"
  by (auto simp: always_def)

lemma init_glfw_Ret:
  "init_glfw e w = Ret u w' \<Longrightarrow>
   glfw_Init e \<and> calls w' = calls w @
     [SetErrorCallback, GlfwInit,
      WindowHint ContextVersionMajor (HintInt 3), WindowHint ContextVersionMinor (HintInt 2),
      WindowHint OpenglProfile OpenglCoreProfile, WindowHint OpenglForwardCompatible GlfwTrue,
      WindowHint Resizable GlfwFalse]"
  by (auto simp: init_glfw_def Let_def issues_def defer_call_def split: if_splits)

lemma create_window_Ret:
  "create_window e w = Ret u w' \<Longrightarrow>
   create_window_err e = None \<and> calls w' = calls w @
     [CreateWindow 800 600 ''Testing'' False, MakeContextCurrent, SetKeyCallback, GlInit, GetError]"
  by (auto simp: create_window_def Let_def issues_def issue_def defer_call_def split: option.splits)

lemma context_window_Ret:
  "context_window e w = Ret u w' \<Longrightarrow>
   primary_monitor_err e = None \<and> create_window_err e = None \<and> calls w' = calls w @
     [GetPrimaryMonitor, CreateWindow 2560 1600 ''Testing'' True, MakeContextCurrent,
      SetKeyCallback, GlInit, GenBuffers 1]"
  by (auto simp: context_window_def Let_def issues_def issue_def printf_def split: option.splits)

lemma createTexture_Ret:
  "createTexture e r w = Ret res w' \<Longrightarrow>
   (snd res \<noteq> None \<and> calls w' = calls w @ [PngDecode] \<and>
      (png_Decode e r = Inr OtherImage \<or> (\<exists>err. png_Decode e r = Inl err))) \<or>
   (\<exists>W H d img. snd res = None \<and> png_Decode e r = Inr (NRGBAImage img) \<and>
      calls w' = calls w @
        [PngDecode, GenTexture, BindTexture (fst res), TexParameterf TEXTURE_MAG_FILTER,
         TexParameterf TEXTURE_MIN_FILTER, TexImage2D W H d])"
  by (auto simp: createTexture_def Let_def issues_def issue_def
      split: sum.splits image.splits if_splits option.splits)

lemma load_texture_Ret:
  "load_texture e name unit w = Ret u w' \<Longrightarrow>
   \<not> texture_fails e name \<and>
   (\<exists>t W H d. calls w' = calls w @
        [OsOpen name, ActiveTexture unit, PngDecode, GenTexture, BindTexture t,
         TexParameterf TEXTURE_MAG_FILTER, TexParameterf TEXTURE_MIN_FILTER,
         TexImage2D W H d, FileClose name])"
  unfolding load_texture_def Let_def
  by (auto simp: issue_def defer_call_def texture_fails_def
      split: sum.splits exec.splits option.splits dest!: createTexture_Ret)

lemma compile_shader_Ret:
  "compile_shader e k label w = Ret u w' \<Longrightarrow>
   compile_status e k = GL_TRUE \<and> calls w' = calls w @
     [CreateShader k, ShaderSource k, CompileShader k, GetShaderStatus k, GetError]"
  by (auto simp: compile_shader_def Let_def issues_def checkError_fields split: if_splits)

lemma create_program_Ret:
  "create_program e w = Ret u w' \<Longrightarrow>
   validate_status e = GL_TRUE \<and> calls w' = calls w @
     [CreateProgram, AttachShader VERTEX_SHADER, AttachShader FRAGMENT_SHADER,
      BindFragDataLocation 0 ''outColor'', LinkProgram, UseProgram,
      ValidateProgram, GetValidateStatus, GetError]"
  by (auto simp: create_program_def Let_def issues_def checkError_fields split: if_splits)

lemma calls_setup_vao:
  "calls (setup_vao e d w) = calls w @ [GenVertexArray, BindVertexArray, GetError]"
  by (simp add: setup_vao_def Let_def issue_def defer_call_def checkError_fields)

lemma calls_setup_buffer:
  "calls (setup_buffer e b target len d prefix w) =
     calls w @ [GenBuffer b, BindBuffer b target, BufferData target (4 * len), GetError]"
  by (simp add: setup_buffer_def Let_def issue_def issues_def defer_call_def checkError_fields)

lemma calls_setup_attrib:
  "calls (setup_attrib e name n stride offset w) =
     calls w @ [GetAttribLocation name, EnableArray name,
                AttribPointer name n (stride * 4) (offset * 4), GetError]"
  by (simp add: setup_attrib_def issues_def checkError_fields)

lemma calls_override_color_uniform:
  "calls (override_color_uniform e w) =
     calls w @ [GetUniformLocation ''overrideColor'', Uniform3f ''overrideColor'' 1 1 1, GetError]"
  by (simp add: override_color_uniform_def issues_def checkError_fields)

lemma calls_setup_uniforms:
  "calls (setup_uniforms eye up w) = calls w @
     [GetUniformLocation ''texKitten'', Uniform1i ''texKitten'' 0,
      GetUniformLocation ''texPuppy'', Uniform1i ''texPuppy'' 1,
      GetUniformLocation ''model'', GetUniformLocation ''view'',
      UniformMatrix4fv ''view'' (LookAtV eye (0, 0, 0) up),
      GetUniformLocation ''proj'',
      UniformMatrix4fv ''proj'' (Perspective 45 (800 / 600) 1 10)]"
  by (simp add: setup_uniforms_def issues_def)

lemma setup_cube_calls:
  assumes "setup_cube e w0 = Ret u w"
  shows "\<exists>t1 W1 H1 d1 t2 W2 H2 d2. calls w =
     [SetErrorCallback, GlfwInit,
      WindowHint ContextVersionMajor (HintInt 3), WindowHint ContextVersionMinor (HintInt 2),
      WindowHint OpenglProfile OpenglCoreProfile, WindowHint OpenglForwardCompatible GlfwTrue,
      WindowHint Resizable GlfwFalse,
      CreateWindow 800 600 ''Testing'' False, MakeContextCurrent, SetKeyCallback, GlInit, GetError,
      Enable DEPTH_TEST,
      GenVertexArray, BindVertexArray, GetError,
      GenBuffer Vbo, BindBuffer Vbo ARRAY_BUFFER, BufferData ARRAY_BUFFER (4 * 336), GetError,
      OsOpen ''sample.png'', ActiveTexture TEXTURE0, PngDecode, GenTexture, BindTexture t1,
      TexParameterf TEXTURE_MAG_FILTER, TexParameterf TEXTURE_MIN_FILTER,
      TexImage2D W1 H1 d1, FileClose ''sample.png'',
      OsOpen ''sample2.png'', ActiveTexture TEXTURE1, PngDecode, GenTexture, BindTexture t2,
      TexParameterf TEXTURE_MAG_FILTER, TexParameterf TEXTURE_MIN_FILTER,
      TexImage2D W2 H2 d2, FileClose ''sample2.png'',
      CreateShader VERTEX_SHADER, ShaderSource VERTEX_SHADER, CompileShader VERTEX_SHADER,
      GetShaderStatus VERTEX_SHADER, GetError,
      CreateShader FRAGMENT_SHADER, ShaderSource FRAGMENT_SHADER, CompileShader FRAGMENT_SHADER,
      GetShaderStatus FRAGMENT_SHADER, GetError,
      CreateProgram, AttachShader VERTEX_SHADER, AttachShader FRAGMENT_SHADER,
      BindFragDataLocation 0 ''outColor'', LinkProgram, UseProgram,
      ValidateProgram, GetValidateStatus, GetError,
      GetAttribLocation ''position'', EnableArray ''position'', AttribPointer ''position'' 3 32 0, GetError,
      GetAttribLocation ''color'', EnableArray ''color'', AttribPointer ''color'' 3 32 12, GetError,
      GetAttribLocation ''texcoord'', EnableArray ''texcoord'', AttribPointer ''texcoord'' 2 32 24, GetError,
      GetUniformLocation ''overrideColor'', Uniform3f ''overrideColor'' 1 1 1, GetError,
      GetUniformLocation ''texKitten'', Uniform1i ''texKitten'' 0,
      GetUniformLocation ''texPuppy'', Uniform1i ''texPuppy'' 1,
      GetUniformLocation ''model'', GetUniformLocation ''view'',
      UniformMatrix4fv ''view'' (LookAtV (22 / 10, 32 / 10, 22 / 10) (0, 0, 0) (0, 0, 5 / 10)),
      GetUniformLocation ''proj'',
      UniformMatrix4fv ''proj'' (Perspective 45 (800 / 600) 1 10)]"
  using assms unfolding setup_cube_def
  apply (simp only: run_steps_Ret_Cons run_steps_Ret_Nil always_Ret)
  apply (elim exE conjE)
  apply (drule init_glfw_Ret create_window_Ret load_texture_Ret compile_shader_Ret create_program_Ret)+
  apply (elim exE conjE)
  apply (simp add: calls_setup_vao calls_setup_buffer calls_setup_attrib
      calls_override_color_uniform calls_setup_uniforms issue_def w0_def)
  done

lemma run_steps_guarded:
  assumes "list_all2 (step_spec I) gs ss" and "I w"
  shows "if list_all (\<lambda>g. g) gs then (\<exists>w'. run_steps ss w = Ret () w' \<and> I w')
         else (\<exists>m w'. run_steps ss w = Pan m w' \<and> I w')"
  using assms
proof (induction gs ss arbitrary: w rule: list_all2_induct)
  case Nil
  then show ?case by simp
next
  case (Cons g gs s ss)
  show ?case
  proof (cases g)
    case True
    with Cons.hyps(1) Cons.prems obtain w1 where w1: "s w = Ret () w1" "I w1"
      by (auto simp: step_spec_def)
    from Cons.IH[OF w1(2)] True w1(1) show ?thesis by simp
  next
    case False
    with Cons.hyps(1) Cons.prems obtain m w1 where "s w = Pan m w1" "I w1"
      by (auto simp: step_spec_def)
    with False show ?thesis by simp
  qed
qed

lemma no_frame_issues:
  "no_frame w \<Longrightarrow> \<not> list_ex loop_call cs \<Longrightarrow> no_frame (issues cs w)"
  by (simp add: no_frame_def issues_def)

lemma no_frame_issue:
  "no_frame w \<Longrightarrow> \<not> loop_call c \<Longrightarrow> no_frame (issue c w)"
  by (simp add: no_frame_def issue_def)

lemma no_frame_defer:
  "no_frame w \<Longrightarrow> \<not> loop_call c \<Longrightarrow> no_frame (defer_call c w)"
  by (simp add: no_frame_def defer_call_def)

lemma no_frame_checkError: "no_frame w \<Longrightarrow> no_frame (checkError e prefix c w)"
  by (simp add: no_frame_def checkError_fields loop_call_def)

lemma no_frame_printf: "no_frame w \<Longrightarrow> no_frame (printf s w)"
  by (simp add: no_frame_def printf_def)

lemmas no_frame_intros = no_frame_issues no_frame_issue no_frame_defer no_frame_checkError
  no_frame_printf

lemma spec_init_glfw: "step_spec no_frame (glfw_Init e) (init_glfw e)"
  by (simp add: step_spec_def init_glfw_def Let_def no_frame_intros loop_call_def)

lemma spec_create_window: "step_spec no_frame (create_window_err e = None) (create_window e)"
  by (auto simp: step_spec_def create_window_def Let_def no_frame_intros loop_call_def)

lemma spec_context_window:
  "step_spec no_frame (primary_monitor_err e = None \<and> create_window_err e = None) (context_window e)"
  by (auto simp: step_spec_def context_window_def Let_def no_frame_intros loop_call_def
      split: option.splits)

lemma spec_always: "(\<And>w. no_frame w \<Longrightarrow> no_frame (f w)) \<Longrightarrow> step_spec no_frame True (always f)"
  by (simp add: step_spec_def always_def)

lemma no_frame_setup_vao: "no_frame w \<Longrightarrow> no_frame (setup_vao e d w)"
  by (simp add: setup_vao_def Let_def no_frame_intros loop_call_def)

lemma no_frame_setup_buffer: "no_frame w \<Longrightarrow> no_frame (setup_buffer e b t len d prefix w)"
  by (simp add: setup_buffer_def Let_def no_frame_intros loop_call_def)

lemma no_frame_setup_attrib: "no_frame w \<Longrightarrow> no_frame (setup_attrib e name n stride offset w)"
  by (simp add: setup_attrib_def no_frame_intros loop_call_def)

lemma no_frame_override: "no_frame w \<Longrightarrow> no_frame (override_color_uniform e w)"
  by (simp add: override_color_uniform_def no_frame_intros loop_call_def)

lemma no_frame_uniforms: "no_frame w \<Longrightarrow> no_frame (setup_uniforms eye up w)"
  by (simp add: setup_uniforms_def no_frame_intros loop_call_def)

lemma spec_compile_shader:
  "step_spec no_frame (compile_status e k = GL_TRUE) (compile_shader e k label)"
  by (simp add: step_spec_def compile_shader_def Let_def no_frame_intros loop_call_def)

lemma spec_create_program:
  "step_spec no_frame (validate_status e = GL_TRUE) (create_program e)"
  by (simp add: step_spec_def create_program_def Let_def no_frame_intros loop_call_def)

lemma createTexture_error:
  "png_Decode e r = Inl err \<Longrightarrow> createTexture e r w = Ret (0, Some err) (issue PngDecode w)"
  "png_Decode e r = Inr OtherImage \<Longrightarrow>
     createTexture e r w = Ret (0, Some ''texture must be an NRGBA image'') (issue PngDecode w)"
  by (simp_all add: createTexture_def Let_def)

lemma spec_load_texture:
  assumes "decoder_row_layout e"
  shows "step_spec no_frame (\<not> texture_fails e name) (load_texture e name unit)"
  unfolding step_spec_def
proof (intro allI impI)
  fix w assume nf: "no_frame w"
  let ?w1 = "issue (ActiveTexture unit) (issue (OsOpen name) w)"
  have nf1: "no_frame ?w1" using nf by (simp add: no_frame_intros loop_call_def)
  show "if \<not> texture_fails e name
        then \<exists>w'. load_texture e name unit w = Ret () w' \<and> no_frame w'
        else \<exists>m w'. load_texture e name unit w = Pan m w' \<and> no_frame w'"
  proof (cases "os_Open e name")
    case (Inl err)
    then show ?thesis using nf
      by (simp add: texture_fails_def load_texture_def Let_def no_frame_intros loop_call_def)
  next
    case (Inr r)
    show ?thesis
    proof (cases "png_Decode e r")
      case (Inl err)
      then show ?thesis using Inr nf1
        by (simp add: texture_fails_def load_texture_def Let_def createTexture_error
            no_frame_intros loop_call_def)
    next
      case dec: (Inr img)
      show ?thesis
      proof (cases img)
        case OtherImage
        then show ?thesis using Inr dec nf1
          by (simp add: texture_fails_def load_texture_def Let_def createTexture_error
              no_frame_intros loop_call_def)
      next
        case (NRGBAImage rgba)
        with dec assms have "row_layout rgba" by (auto simp: decoder_row_layout_def)
        from createTexture_row_layout[OF dec[unfolded NRGBAImage] this, of ?w1]
        obtain t w2 where ct: "createTexture e r ?w1 = Ret (t, None) w2" and nf2: "no_frame w2"
          using nf1 by (auto simp: no_frame_intros loop_call_def)
        then show ?thesis using Inr dec NRGBAImage
          by (simp add: texture_fails_def load_texture_def Let_def no_frame_intros loop_call_def)
      qed
    qed
  qed
qed

lemma no_frame_w0: "no_frame w0"
  by (simp add: no_frame_def w0_def)

lemma setup_outcome:
  assumes "uses_textures p \<longrightarrow> decoder_row_layout e"
  shows "if setup_failure p e then (\<exists>m w. run_setup p e w0 = Pan m w \<and> no_frame w)
         else (\<exists>w. run_setup p e w0 = Ret () w \<and> no_frame w)"
proof (cases p)
  case ContextCreation
  have "list_all2 (step_spec no_frame)
      [glfw_Init e, primary_monitor_err e = None \<and> create_window_err e = None]
      [init_glfw e, context_window e]"
    by (simp add: spec_init_glfw spec_context_window)
  from run_steps_guarded[OF this no_frame_w0] show ?thesis
    using ContextCreation by (auto simp: setup_context_def)
next
  case ReflectiveCube
  then have lay: "decoder_row_layout e" using assms by (simp add: uses_textures_def)
  have "list_all2 (step_spec no_frame)
      [glfw_Init e, create_window_err e = None, True, True, True,
       \<not> texture_fails e ''sample.png'', \<not> texture_fails e ''sample2.png'',
       compile_status e VERTEX_SHADER = GL_TRUE, compile_status e FRAGMENT_SHADER = GL_TRUE,
       validate_status e = GL_TRUE, True, True, True, True, True]
      [init_glfw e,
      create_window e,
      always (issue (Enable DEPTH_TEST)),
      always (setup_vao e True),
      always (setup_buffer e Vbo ARRAY_BUFFER 336 True ''vertex data''),
      load_texture e ''sample.png'' TEXTURE0,
      load_texture e ''sample2.png'' TEXTURE1,
      compile_shader e VERTEX_SHADER ''vertex'',
      compile_shader e FRAGMENT_SHADER ''fragment'',
      create_program e,
      always (setup_attrib e ''position'' 3 8 0),
      always (setup_attrib e ''color'' 3 8 3),
      always (setup_attrib e ''texcoord'' 2 8 6),
      always (override_color_uniform e),
      always (setup_uniforms (22 / 10, 32 / 10, 22 / 10) (0, 0, 5 / 10))]"
    by (simp add: spec_init_glfw spec_create_window spec_always spec_load_texture[OF lay]
        spec_compile_shader spec_create_program no_frame_setup_vao no_frame_setup_buffer
        no_frame_setup_attrib no_frame_override no_frame_uniforms no_frame_issue loop_call_def)
  from run_steps_guarded[OF this no_frame_w0] show ?thesis
    using ReflectiveCube by (auto simp: setup_cube_def shaders_fail_def)
next
  case Triangle
  have "list_all2 (step_spec no_frame)
      [glfw_Init e, create_window_err e = None, True, True,
       compile_status e VERTEX_SHADER = GL_TRUE, compile_status e FRAGMENT_SHADER = GL_TRUE,
       validate_status e = GL_TRUE, True, True]
      [init_glfw e,
      create_window e,
      always (setup_vao e False),
      always (setup_buffer e Vbo ARRAY_BUFFER 30 False ''vertex data''),
      compile_shader e VERTEX_SHADER ''vertex'',
      compile_shader e FRAGMENT_SHADER ''fragment'',
      create_program e,
      always (setup_attrib e ''position'' 2 5 0),
      always (setup_attrib e ''color'' 3 5 2)]"
    by (simp add: spec_init_glfw spec_create_window spec_always
        spec_compile_shader spec_create_program no_frame_setup_vao no_frame_setup_buffer
        no_frame_setup_attrib)
  from run_steps_guarded[OF this no_frame_w0] show ?thesis
    using Triangle by (auto simp: setup_triangle_def shaders_fail_def)
next
  case TexturedQuad
  then have lay: "decoder_row_layout e" using assms by (simp add: uses_textures_def)
  have "list_all2 (step_spec no_frame)
      [glfw_Init e, create_window_err e = None, True, True, True,
       \<not> texture_fails e ''sample.png'', \<not> texture_fails e ''sample2.png'',
       compile_status e VERTEX_SHADER = GL_TRUE, compile_status e FRAGMENT_SHADER = GL_TRUE,
       validate_status e = GL_TRUE, True, True, True, True]
      [init_glfw e,
      create_window e,
      always (setup_vao e True),
      always (setup_buffer e Vbo ARRAY_BUFFER 28 True ''vertex data''),
      always (setup_buffer e Ebo ELEMENT_ARRAY_BUFFER 6 True ''element data''),
      load_texture e ''sample.png'' TEXTURE0,
      load_texture e ''sample2.png'' TEXTURE1,
      compile_shader e VERTEX_SHADER ''vertex'',
      compile_shader e FRAGMENT_SHADER ''fragment'',
      create_program e,
      always (setup_attrib e ''position'' 2 7 0),
      always (setup_attrib e ''color'' 3 7 2),
      always (setup_attrib e ''texcoord'' 2 7 5),
      always (setup_uniforms (12 / 10, 12 / 10, 12 / 10) (0, 0, 1))]"
    by (simp add: spec_init_glfw spec_create_window spec_always spec_load_texture[OF lay]
        spec_compile_shader spec_create_program no_frame_setup_vao no_frame_setup_buffer
        no_frame_setup_attrib no_frame_uniforms)
  from run_steps_guarded[OF this no_frame_w0] show ?thesis
    using TexturedQuad by (auto simp: setup_quad_def shaders_fail_def)
qed

subsection \<open>From the setup to the end of main\<close>

lemma iterate_Suc_end:
  "iterate body inputs i (Suc k) w = body (inputs (i + k)) (iterate body inputs i k w)"
  by (induction k arbitrary: i w) simp_all

lemma ShouldClose_issue [simp]: "ShouldClose (issue c w) = ShouldClose w"
  by (simp add: issue_def)

lemma ShouldClose_issues [simp]: "ShouldClose (issues cs w) = ShouldClose w"
  by (simp add: issues_def)

lemma frame_mono: "ShouldClose w \<Longrightarrow> ShouldClose (frame p e inp w)"
  by (cases p)
     (simp_all add: frame_context_def frame_cube_def frame_triangle_def frame_quad_def Let_def
        checkError_fields poll_events_mono)

lemma frame_escape:
  "KeyEvent KeyEscape s Press mods \<in> set (events inp) \<Longrightarrow> ShouldClose (frame p e inp w)"
  by (cases p)
     (simp_all add: frame_context_def frame_cube_def frame_triangle_def frame_quad_def Let_def
        checkError_fields poll_events_escape)

lemma main_returns_on_escape:
  assumes lay: "uses_textures p \<longrightarrow> decoder_row_layout e"
    and ok: "\<not> setup_failure p e"
    and esc: "KeyEvent KeyEscape s Press mods \<in> set (events (frames e n))"
  shows "\<exists>w'. main p e = Some (Returned, run_deferred w') \<and> ShouldClose w'"
proof -
  from setup_outcome[OF lay] ok obtain ws where ws: "run_setup p e w0 = Ret () ws" by auto
  have "ShouldClose (iterate (frame p e) (frames e) 0 (Suc n) ws)"
    using esc by (simp only: iterate_Suc_end) (simp add: frame_escape)
  from render_loop_returns[OF this] obtain j where
    "render_loop (frame p e) (frames e) 0 ws = Some (iterate (frame p e) (frames e) 0 j ws)"
    "ShouldClose (iterate (frame p e) (frames e) 0 j ws)" by blast
  then show ?thesis using ws
    by (intro exI[of _ "iterate (frame p e) (frames e) 0 j ws"]) (simp add: main_def)
qed

lemma no_frame_run_deferred: "no_frame w \<Longrightarrow> no_frame (run_deferred w)"
  by (simp add: no_frame_def run_deferred_def)

lemma decoder_row_layout_env_ok: "decoder_row_layout env_ok"
  by (simp add: decoder_row_layout_def env_ok_def row_layout_def img12_def Dx_def Dy_def)

lemma setup_failure_env_ok: "\<not> setup_failure p env_ok"
  by (cases p)
     (simp_all add: env_ok_def texture_fails_def shaders_fail_def GL_TRUE_def)

lemma escape_in_env_ok: "KeyEvent KeyEscape 9 Press 0 \<in> set (events (frames env_ok 0))"
  by (simp add: env_ok_def escape_frame_def KeyEscape_def Press_def)

subsection \<open>The log of a successful setup\<close>

lemma setup_context_calls:
  assumes "setup_context e w0 = Ret u w"
  shows "calls w =
     [SetErrorCallback, GlfwInit,
      WindowHint ContextVersionMajor (HintInt 3), WindowHint ContextVersionMinor (HintInt 2),
      WindowHint OpenglProfile OpenglCoreProfile, WindowHint OpenglForwardCompatible GlfwTrue,
      WindowHint Resizable GlfwFalse,
      GetPrimaryMonitor, CreateWindow 2560 1600 ''Testing'' True, MakeContextCurrent,
      SetKeyCallback, GlInit, GenBuffers 1]"
  using assms unfolding setup_context_def
  apply (simp only: run_steps_Ret_Cons run_steps_Ret_Nil always_Ret)
  apply (elim exE conjE)
  apply (drule init_glfw_Ret context_window_Ret)+
  apply (simp add: w0_def)
  done

lemma setup_triangle_calls:
  assumes "setup_triangle e w0 = Ret u w"
  shows "calls w =
     [SetErrorCallback, GlfwInit,
      WindowHint ContextVersionMajor (HintInt 3), WindowHint ContextVersionMinor (HintInt 2),
      WindowHint OpenglProfile OpenglCoreProfile, WindowHint OpenglForwardCompatible GlfwTrue,
      WindowHint Resizable GlfwFalse,
      CreateWindow 800 600 ''Testing'' False, MakeContextCurrent, SetKeyCallback, GlInit, GetError,
      GenVertexArray, BindVertexArray, GetError,
      GenBuffer Vbo, BindBuffer Vbo ARRAY_BUFFER, BufferData ARRAY_BUFFER (4 * 30), GetError,
      CreateShader VERTEX_SHADER, ShaderSource VERTEX_SHADER, CompileShader VERTEX_SHADER,
      GetShaderStatus VERTEX_SHADER, GetError,
      CreateShader FRAGMENT_SHADER, ShaderSource FRAGMENT_SHADER, CompileShader FRAGMENT_SHADER,
      GetShaderStatus FRAGMENT_SHADER, GetError,
      CreateProgram, AttachShader VERTEX_SHADER, AttachShader FRAGMENT_SHADER,
      BindFragDataLocation 0 ''outColor'', LinkProgram, UseProgram,
      ValidateProgram, GetValidateStatus, GetError,
      GetAttribLocation ''position'', EnableArray ''position'', AttribPointer ''position'' 2 20 0, GetError,
      GetAttribLocation ''color'', EnableArray ''color'', AttribPointer ''color'' 3 20 8, GetError]"
  using assms unfolding setup_triangle_def
  apply (simp only: run_steps_Ret_Cons run_steps_Ret_Nil always_Ret)
  apply (elim exE conjE)
  apply (drule init_glfw_Ret create_window_Ret compile_shader_Ret create_program_Ret)+
  apply (elim exE conjE)
  apply (simp add: calls_setup_vao calls_setup_buffer calls_setup_attrib w0_def)
  done

lemma setup_quad_calls:
  assumes "setup_quad e w0 = Ret u w"
  shows "\<exists>t1 W1 H1 d1 t2 W2 H2 d2. calls w =
     [SetErrorCallback, GlfwInit,
      WindowHint ContextVersionMajor (HintInt 3), WindowHint ContextVersionMinor (HintInt 2),
      WindowHint OpenglProfile OpenglCoreProfile, WindowHint OpenglForwardCompatible GlfwTrue,
      WindowHint Resizable GlfwFalse,
      CreateWindow 800 600 ''Testing'' False, MakeContextCurrent, SetKeyCallback, GlInit, GetError,
      GenVertexArray, BindVertexArray, GetError,
      GenBuffer Vbo, BindBuffer Vbo ARRAY_BUFFER, BufferData ARRAY_BUFFER (4 * 28), GetError,
      GenBuffer Ebo, BindBuffer Ebo ELEMENT_ARRAY_BUFFER, BufferData ELEMENT_ARRAY_BUFFER (4 * 6),
      GetError,
      OsOpen ''sample.png'', ActiveTexture TEXTURE0, PngDecode, GenTexture, BindTexture t1,
      TexParameterf TEXTURE_MAG_FILTER, TexParameterf TEXTURE_MIN_FILTER,
      TexImage2D W1 H1 d1, FileClose ''sample.png'',
      OsOpen ''sample2.png'', ActiveTexture TEXTURE1, PngDecode, GenTexture, BindTexture t2,
      TexParameterf TEXTURE_MAG_FILTER, TexParameterf TEXTURE_MIN_FILTER,
      TexImage2D W2 H2 d2, FileClose ''sample2.png'',
      CreateShader VERTEX_SHADER, ShaderSource VERTEX_SHADER, CompileShader VERTEX_SHADER,
      GetShaderStatus VERTEX_SHADER, GetError,
      CreateShader FRAGMENT_SHADER, ShaderSource FRAGMENT_SHADER, CompileShader FRAGMENT_SHADER,
      GetShaderStatus FRAGMENT_SHADER, GetError,
      CreateProgram, AttachShader VERTEX_SHADER, AttachShader FRAGMENT_SHADER,
      BindFragDataLocation 0 ''outColor'', LinkProgram, UseProgram,
      ValidateProgram, GetValidateStatus, GetError,
      GetAttribLocation ''position'', EnableArray ''position'', AttribPointer ''position'' 2 28 0, GetError,
      GetAttribLocation ''color'', EnableArray ''color'', AttribPointer ''color'' 3 28 8, GetError,
      GetAttribLocation ''texcoord'', EnableArray ''texcoord'', AttribPointer ''texcoord'' 2 28 20, GetError,
      GetUniformLocation ''texKitten'', Uniform1i ''texKitten'' 0,
      GetUniformLocation ''texPuppy'', Uniform1i ''texPuppy'' 1,
      GetUniformLocation ''model'', GetUniformLocation ''view'',
      UniformMatrix4fv ''view'' (LookAtV (12 / 10, 12 / 10, 12 / 10) (0, 0, 0) (0, 0, 1)),
      GetUniformLocation ''proj'',
      UniformMatrix4fv ''proj'' (Perspective 45 (800 / 600) 1 10)]"
  using assms unfolding setup_quad_def
  apply (simp only: run_steps_Ret_Cons run_steps_Ret_Nil always_Ret)
  apply (elim exE conjE)
  apply (drule init_glfw_Ret create_window_Ret load_texture_Ret compile_shader_Ret create_program_Ret)+
  apply (elim exE conjE)
  apply (simp add: calls_setup_vao calls_setup_buffer calls_setup_attrib
      calls_setup_uniforms w0_def)
  done

lemmas log_facts = buffers_created_def buffers_generated_def files_opened_def opened_file_def
  cap_enabled_def uniform3f_value_def

lemma setup_context_facts:
  assumes "setup_context e w0 = Ret u w"
  shows "buffers_created (calls w) = 1" "files_opened (calls w) = []"
  using setup_context_calls[OF assms] by (simp_all add: log_facts)

lemma setup_triangle_facts:
  assumes "setup_triangle e w0 = Ret u w"
  shows "buffers_created (calls w) = 1" "files_opened (calls w) = []"
  using setup_triangle_calls[OF assms] by (simp_all add: log_facts)

lemma setup_cube_facts:
  assumes "setup_cube e w0 = Ret u w"
  shows "buffers_created (calls w) = 1"
    "files_opened (calls w) = [''sample.png'', ''sample2.png'']"
    "\<not> cap_enabled STENCIL_TEST (calls w)"
    "uniform3f_value ''overrideColor'' (calls w) = Some (1, 1, 1)"
  using setup_cube_calls[OF assms] by (auto simp: log_facts)

lemma setup_quad_facts:
  assumes "setup_quad e w0 = Ret u w"
  shows "buffers_created (calls w) = 2"
    "files_opened (calls w) = [''sample.png'', ''sample2.png'']"
  using setup_quad_calls[OF assms] by (auto simp: log_facts)

lemma setup_buffers:
  assumes "run_setup p e w0 = Ret u w"
  shows "buffers_created (calls w) = (if p = TexturedQuad then 2 else 1)"
  using assms
  by (cases p)
     (simp_all add: setup_context_facts setup_triangle_facts setup_cube_facts setup_quad_facts)

lemma setup_files:
  assumes "run_setup p e w0 = Ret u w"
  shows "files_opened (calls w) =
           (if uses_textures p then [''sample.png'', ''sample2.png''] else [])"
  using assms
  by (cases p)
     (simp_all add: uses_textures_def setup_context_facts setup_triangle_facts setup_cube_facts
        setup_quad_facts)

lemma cap_enabled_append:
  "cap_enabled c (xs @ [Disable c]) = False"
  "cap_enabled c (xs @ [Disable c, GetError, SwapBuffers]) = False"
  by (simp_all add: cap_enabled_def)

lemma frame_cube_state:
  "\<not> cap_enabled STENCIL_TEST (calls (frame_cube e inp w))"
  "uniform3f_value ''overrideColor'' (calls (frame_cube e inp w)) = Some (1, 1, 1)"
proof -
  obtain n where n: "calls (poll_events (events inp) w) =
      calls w @ PollEvents # replicate n (SetShouldClose True)"
    using calls_poll_events by blast
  have c: "calls (frame_cube e inp w) = (calls w @ PollEvents # replicate n (SetShouldClose True) @
      [GetFramebufferSize, Viewport 0 0 (fst (fb_size inp)) (snd (fb_size inp)),
       ClearColor 1 1 1 1, Clear [COLOR_BUFFER_BIT, DEPTH_BUFFER_BIT],
       UniformMatrix4fv ''model'' (rotation inp), DrawArrays 0 36, Enable STENCIL_TEST,
       StencilFunc ALWAYS 1 0xFF, StencilOp KEEP KEEP REPLACE, StencilMask 0xFF,
       DepthMask False, Clear [STENCIL_BUFFER_BIT], DrawArrays 36 6,
       StencilFunc EQUAL 1 0xFF, StencilMask 0x00, DepthMask True,
       UniformMatrix4fv ''model''
         (Mul4 (Mul4 (rotation inp) (Translate3D 0 0 (- 1))) (Scale3D 1 1 (- 1))),
       Uniform3f ''overrideColor'' (3 / 10) (3 / 10) (3 / 10), DrawArrays 0 36]) @
      [Uniform3f ''overrideColor'' 1 1 1, Disable STENCIL_TEST, GetError, SwapBuffers]"
    by (simp add: frame_cube_def Let_def issue_def issues_def checkError_fields n)
  show "\<not> cap_enabled STENCIL_TEST (calls (frame_cube e inp w))"
    by (simp only: c) (simp add: cap_enabled_def)
  show "uniform3f_value ''overrideColor'' (calls (frame_cube e inp w)) = Some (1, 1, 1)"
    by (simp only: c) (simp add: uniform3f_value_def)
qed

lemma forget_handleKey:
  "forget_stdout (handleKey w k s action mods) = handleKey (forget_stdout w) k s action mods"
  by (simp add: forget_stdout_def handleKey_def issue_def)

lemma forget_dispatch: "forget_stdout (dispatch ev w) = dispatch ev (forget_stdout w)"
  by (cases ev) (simp_all add: forget_handleKey, simp add: forget_stdout_def)

lemma forget_fold_dispatch:
  "forget_stdout (fold dispatch evs w) = fold dispatch evs (forget_stdout w)"
  by (induction evs arbitrary: w) (simp_all add: forget_dispatch)

lemma forget_issue: "forget_stdout (issue c w) = issue c (forget_stdout w)"
  by (simp add: forget_stdout_def issue_def)

lemma forget_issues: "forget_stdout (issues cs w) = issues cs (forget_stdout w)"
  by (simp add: forget_stdout_def issues_def)

lemma forget_poll_events:
  "forget_stdout (poll_events evs w) = poll_events evs (forget_stdout w)"
  by (simp add: poll_events_def forget_fold_dispatch forget_issue)

lemma forget_checkError:
  "forget_stdout (checkError e prefix c w) = issue GetError (forget_stdout w)"
  by (simp add: checkError_def Let_def forget_stdout_def issue_def printf_def split: option.splits)

lemma forget_frame:
  assumes "forget_stdout w = forget_stdout w'"
  shows "forget_stdout (frame p e (inp\<lparr>gl_error := c\<rparr>) w) = forget_stdout (frame p e inp w')"
  using assms
  by (cases p)
     (simp_all add: frame_context_def frame_cube_def frame_triangle_def frame_quad_def Let_def
        rotation_def forget_issue forget_issues forget_poll_events forget_checkError)

lemma forget_iterate:
  assumes "\<forall>i. inputs' i = (inputs i)\<lparr>gl_error := codes i\<rparr>"
    and "forget_stdout w = forget_stdout w'"
  shows "forget_stdout (iterate (frame p e) inputs' i k w) =
         forget_stdout (iterate (frame p e) inputs i k w')"
  using assms(2)
proof (induction k arbitrary: i w w')
  case 0
  then show ?case by simp
next
  case (Suc k)
  have "forget_stdout (frame p e (inputs' i) w) = forget_stdout (frame p e (inputs i) w')"
    using assms(1) forget_frame[OF Suc.prems] by simp
  from Suc.IH[OF this] show ?case by simp
qed

lemma ShouldClose_forget: "ShouldClose (forget_stdout w) = ShouldClose w"
  by (simp add: forget_stdout_def)

lemma render_loop_forget_one:
  assumes inputs: "\<forall>i. inputs' i = (inputs i)\<lparr>gl_error := codes i\<rparr>"
    and loop: "render_loop (frame p e) inputs i w = Some v"
  shows "\<exists>v'. render_loop (frame p e) inputs' i w = Some v' \<and> forget_stdout v' = forget_stdout v"
proof -
  from render_loop_sound[OF loop] obtain k where k: "v = iterate (frame p e) inputs i k w"
    "ShouldClose v" "\<forall>l<k. \<not> ShouldClose (iterate (frame p e) inputs i l w)" by blast
  have same: "\<And>l. forget_stdout (iterate (frame p e) inputs' i l w) =
      forget_stdout (iterate (frame p e) inputs i l w)"
    using forget_iterate[OF inputs refl] .
  have sc: "\<And>l. ShouldClose (iterate (frame p e) inputs' i l w) =
      ShouldClose (iterate (frame p e) inputs i l w)"
    using same by (metis ShouldClose_forget)
  have "ShouldClose (iterate (frame p e) inputs' i k w)" using k(1,2) sc by simp
  from render_loop_returns[OF this] obtain j where j: "j \<le> k"
    "render_loop (frame p e) inputs' i w = Some (iterate (frame p e) inputs' i j w)"
    "ShouldClose (iterate (frame p e) inputs' i j w)" by blast
  have "j = k" using j(1,3) k(3) sc by (cases "j < k") auto
  with j(2) same k(1) show ?thesis by simp
qed

lemma render_loop_forget:
  assumes inputs: "\<forall>i. inputs' i = (inputs i)\<lparr>gl_error := codes i\<rparr>"
  shows "map_option forget_stdout (render_loop (frame p e) inputs' i w) =
         map_option forget_stdout (render_loop (frame p e) inputs i w)"
proof -
  have converse_inputs: "\<forall>i. inputs i = (inputs' i)\<lparr>gl_error := gl_error (inputs i)\<rparr>"
    using inputs by simp
  show ?thesis
  proof (cases "render_loop (frame p e) inputs i w")
    case None
    show ?thesis
    proof (cases "render_loop (frame p e) inputs' i w")
      case n: None
      with None show ?thesis by simp
    next
      case (Some v')
      from render_loop_forget_one[OF converse_inputs Some] None show ?thesis by simp
    qed
  next
    case (Some v)
    from render_loop_forget_one[OF inputs Some] Some show ?thesis by auto
  qed
qed

section \<open>The claims\<close>

lemma frame_tail:
  assumes "p \<noteq> ContextCreation"
  shows "\<exists>cs. new_calls w (frame p e inp w) = cs @ [GetError, SwapBuffers]"
proof -
  obtain n where n: "calls (poll_events (events inp) w) =
      calls w @ PollEvents # replicate n (SetShouldClose True)"
    using calls_poll_events by blast
  show ?thesis
  proof (cases p)
    case ContextCreation
    with assms show ?thesis by simp
  next
    case ReflectiveCube
    then show ?thesis
      by (simp add: new_calls_def frame_cube_def Let_def issue_def issues_def checkError_fields n)
  next
    case Triangle
    then show ?thesis
      by (simp add: new_calls_def frame_triangle_def Let_def issue_def issues_def
          checkError_fields n)
  next
    case TexturedQuad
    then show ?thesis
      by (simp add: new_calls_def frame_quad_def Let_def issue_def issues_def
          checkError_fields n)
  qed
qed

lemma first_texture_error_is_panic_value:
  assumes "uses_textures p" "glfw_Init e" "create_window_err e = None"
    and "os_Open e ''sample.png'' = Inr r"
    and "png_Decode e r = Inl err \<or>
         (png_Decode e r = Inr OtherImage \<and> err = ''texture must be an NRGBA image'')"
  shows "\<exists>w. main p e = Some (Panicked err, w)"
proof -
  have ct: "\<And>w. createTexture e r w = Ret (0, Some err) (issue PngDecode w)"
    using assms(5) by (auto simp: createTexture_error)
  have lt: "\<And>w. \<exists>w'. load_texture e ''sample.png'' TEXTURE0 w = Pan err w'"
    using assms(4) by (simp add: load_texture_def Let_def ct)
  have "\<exists>w. run_setup p e w0 = Pan err w"
  proof (cases "p = ReflectiveCube")
    case True
    obtain w' where "load_texture e ''sample.png'' TEXTURE0
        (setup_buffer e Vbo ARRAY_BUFFER 336 True ''vertex data''
          (setup_vao e True (issue (Enable DEPTH_TEST)
            (issues [MakeContextCurrent, SetKeyCallback, GlInit, GetError]
              (defer_call Destroy (issue (CreateWindow 800 600 ''Testing'' False)
                (issues [WindowHint ContextVersionMajor (HintInt 3),
                 WindowHint ContextVersionMinor (HintInt 2),
                 WindowHint OpenglProfile OpenglCoreProfile,
                 WindowHint OpenglForwardCompatible GlfwTrue,
                 WindowHint Resizable GlfwFalse]
                 (defer_call Terminate (issues [SetErrorCallback, GlfwInit] w0))))))))) = Pan err w'"
      using lt by blast
    then show ?thesis using True assms(2,3)
      by (simp add: setup_cube_def init_glfw_def create_window_def always_def Let_def)
  next
    case False
    with assms(1) have q: "p = TexturedQuad" by (simp add: uses_textures_def)
    obtain w' where "load_texture e ''sample.png'' TEXTURE0
        (setup_buffer e Ebo ELEMENT_ARRAY_BUFFER 6 True ''element data''
          (setup_buffer e Vbo ARRAY_BUFFER 28 True ''vertex data''
            (setup_vao e True
              (issues [MakeContextCurrent, SetKeyCallback, GlInit, GetError]
                (defer_call Destroy (issue (CreateWindow 800 600 ''Testing'' False)
                  (issues [WindowHint ContextVersionMajor (HintInt 3),
                   WindowHint ContextVersionMinor (HintInt 2),
                   WindowHint OpenglProfile OpenglCoreProfile,
                   WindowHint OpenglForwardCompatible GlfwTrue,
                   WindowHint Resizable GlfwFalse]
                   (defer_call Terminate (issues [SetErrorCallback, GlfwInit] w0))))))))) = Pan err w'"
      using lt by blast
    then show ?thesis using q assms(2,3)
      by (simp add: setup_quad_def init_glfw_def create_window_def always_def Let_def)
  qed
  then show ?thesis by (auto simp: main_def)
qed

lemma texture_failure_panics:
  assumes "uses_textures p" "decoder_row_layout e"
    and "texture_fails e ''sample.png'' \<or> texture_fails e ''sample2.png''"
  shows "\<exists>m w. main p e = Some (Panicked m, w)"
proof -
  have "setup_failure p e" using assms(1,3) by (cases p) (auto simp: uses_textures_def)
  with setup_outcome[of p e] assms(2) obtain m w where "run_setup p e w0 = Pan m w" by auto
  then show ?thesis by (simp add: main_def)
qed

lemma setup_state_cube:
  assumes "run_setup ReflectiveCube e w0 = Ret u ws"
  shows "\<not> cap_enabled STENCIL_TEST (calls (iterate (frame ReflectiveCube e) inputs 0 k ws)) \<and>
         uniform3f_value ''overrideColor'' (calls (iterate (frame ReflectiveCube e) inputs 0 k ws)) =
           Some (1, 1, 1)"
proof (cases k)
  case 0
  with assms show ?thesis by (simp add: setup_cube_facts)
next
  case (Suc j)
  then show ?thesis by (simp only: iterate_Suc_end) (simp add: frame_cube_state)
qed

lemma setup_succeeds_env_ok: "\<exists>ws. run_setup p env_ok w0 = Ret () ws"
  using setup_outcome[of p env_ok] decoder_row_layout_env_ok setup_failure_env_ok[of p] by auto

text \<open>
  \<^bold>\<open>C1.\<close> In every program, the key callback invoked with the Escape key and the Press
  action sets the window's should-close flag. A render loop returns a world exactly
  when that world is the first, after some number of completed iterations, in which the
  flag is set: every iteration before it ran with the flag clear. When the loop returns,
  \<open>main\<close> returns normally. In particular, if the setup succeeds and some frame delivers an
  Escape press, \<open>main\<close> returns normally with the flag set.
\<close>

theorem escape_ends_render_loop:
  "ShouldClose (handleKey w KeyEscape s Press mods) \<and>
   (render_loop body inputs i w = Some w' \<longleftrightarrow>
      (\<exists>k. w' = iterate body inputs i k w \<and> ShouldClose w' \<and>
           (\<forall>l<k. \<not> ShouldClose (iterate body inputs i l w)))) \<and>
   (run_setup p e w0 = Ret () ws \<and> render_loop (frame p e) (frames e) 0 ws = Some wl \<longrightarrow>
      main p e = Some (Returned, run_deferred wl)) \<and>
   ((uses_textures p \<longrightarrow> decoder_row_layout e) \<and> \<not> setup_failure p e \<and>
    KeyEvent KeyEscape s Press mods \<in> set (events (frames e n)) \<longrightarrow>
      (\<exists>wl. main p e = Some (Returned, run_deferred wl) \<and> ShouldClose wl))"
proof (intro conjI)
  show "ShouldClose (handleKey w KeyEscape s Press mods)" by (rule handleKey_escape)
  show "render_loop body inputs i w = Some w' \<longleftrightarrow>
      (\<exists>k. w' = iterate body inputs i k w \<and> ShouldClose w' \<and>
           (\<forall>l<k. \<not> ShouldClose (iterate body inputs i l w)))"
  proof
    assume "render_loop body inputs i w = Some w'"
    then show "\<exists>k. w' = iterate body inputs i k w \<and> ShouldClose w' \<and>
           (\<forall>l<k. \<not> ShouldClose (iterate body inputs i l w))"
      by (rule render_loop_sound)
  next
    assume "\<exists>k. w' = iterate body inputs i k w \<and> ShouldClose w' \<and>
           (\<forall>l<k. \<not> ShouldClose (iterate body inputs i l w))"
    then obtain k where k: "w' = iterate body inputs i k w" "ShouldClose w'"
      "\<forall>l<k. \<not> ShouldClose (iterate body inputs i l w)" by blast
    from render_loop_returns[of body inputs i k w] k(1,2) obtain j where j: "j \<le> k"
      "render_loop body inputs i w = Some (iterate body inputs i j w)"
      "ShouldClose (iterate body inputs i j w)" by blast
    with k(3) have "j = k" by (cases "j < k") auto
    with j(2) k(1) show "render_loop body inputs i w = Some w'" by simp
  qed
  show "run_setup p e w0 = Ret () ws \<and> render_loop (frame p e) (frames e) 0 ws = Some wl \<longrightarrow>
      main p e = Some (Returned, run_deferred wl)"
    by (simp add: main_def)
  show "(uses_textures p \<longrightarrow> decoder_row_layout e) \<and> \<not> setup_failure p e \<and>
    KeyEvent KeyEscape s Press mods \<in> set (events (frames e n)) \<longrightarrow>
      (\<exists>wl. main p e = Some (Returned, run_deferred wl) \<and> ShouldClose wl)"
    using main_returns_on_escape by blast
qed

theorem escape_ends_render_loop_witness:
  "uses_textures ReflectiveCube \<and> decoder_row_layout env_ok \<and>
   \<not> setup_failure ReflectiveCube env_ok \<and>
   KeyEvent KeyEscape 9 Press 0 \<in> set (events (frames env_ok 0)) \<and>
   (\<exists>wl. main ReflectiveCube env_ok = Some (Returned, run_deferred wl) \<and> ShouldClose wl) \<and>
   ShouldClose (handleKey w0 KeyEscape 9 Press 0) \<and>
   render_loop (frame Triangle env_ok) (frames env_ok) 0 (w0\<lparr>ShouldClose := True\<rparr>) =
     Some (w0\<lparr>ShouldClose := True\<rparr>)"
proof -
  have k0: "\<exists>k. w0\<lparr>ShouldClose := True\<rparr> =
        iterate (frame Triangle env_ok) (frames env_ok) 0 k (w0\<lparr>ShouldClose := True\<rparr>) \<and>
        ShouldClose (w0\<lparr>ShouldClose := True\<rparr>) \<and>
        (\<forall>l<k. \<not> ShouldClose
           (iterate (frame Triangle env_ok) (frames env_ok) 0 l (w0\<lparr>ShouldClose := True\<rparr>)))"
    by (rule exI[of _ 0]) simp
  show ?thesis
    using escape_ends_render_loop[where w = "w0\<lparr>ShouldClose := True\<rparr>" and s = 9 and mods = 0
        and body = "frame Triangle env_ok" and inputs = "frames env_ok" and i = 0
        and w' = "w0\<lparr>ShouldClose := True\<rparr>" and p = ReflectiveCube and e = env_ok and n = 0]
      escape_ends_render_loop[where w = w0 and s = 9 and mods = 0]
      k0 decoder_row_layout_env_ok setup_failure_env_ok escape_in_env_ok
    by (simp add: uses_textures_def)
qed

text \<open>
  \<^bold>\<open>C2.\<close> In every program, a failure during setup makes \<open>main\<close> panic with a
  message, without a single iteration of the render loop: a failed GLFW initialisation
  (with the message \<open>Can't init glfw!\<close>), a failed primary-monitor lookup
  (context-creation program), a failed window creation, a texture file that cannot be
  opened or decoded or is not an NRGBA image, a vertex or fragment shader whose
  COMPILE_STATUS is not TRUE, and a program object that fails to link. The programs
  detect the failed link through VALIDATE_STATUS, which they read after \<open>Link\<close>, \<open>Use\<close>
  and \<open>Validate\<close>: by OpenGL's rule the validation of a program that did not link fails.
  For the two texture programs the PNG decoder delivers its images in row layout, as it
  allocates them.
\<close>

theorem setup_failure_is_fatal:
  "((uses_textures p \<longrightarrow> decoder_row_layout e) \<and> setup_failure p e \<longrightarrow>
     (\<exists>m w. main p e = Some (Panicked m, w) \<and> no_frame w)) \<and>
   ((uses_textures p \<longrightarrow> decoder_row_layout e) \<and> uses_shaders p \<and>
    (compile_status e VERTEX_SHADER \<noteq> GL_TRUE \<or> compile_status e FRAGMENT_SHADER \<noteq> GL_TRUE) \<longrightarrow>
     (\<exists>m w. main p e = Some (Panicked m, w) \<and> no_frame w)) \<and>
   ((uses_textures p \<longrightarrow> decoder_row_layout e) \<and> validation_reflects_link e \<and>
    uses_shaders p \<and> link_status e \<noteq> GL_TRUE \<longrightarrow>
     (\<exists>m w. main p e = Some (Panicked m, w) \<and> no_frame w)) \<and>
   (\<not> glfw_Init e \<longrightarrow> (\<exists>w. main p e = Some (Panicked ''Can't init glfw!'', w)))"
proof -
  have fatal: "\<exists>m w. main p e = Some (Panicked m, w) \<and> no_frame w"
    if lay: "uses_textures p \<longrightarrow> decoder_row_layout e" and fail: "setup_failure p e"
  proof -
    from setup_outcome[OF lay] fail obtain m w where "run_setup p e w0 = Pan m w" "no_frame w"
      by auto
    then have "main p e = Some (Panicked m, run_deferred w)" "no_frame (run_deferred w)"
      by (simp_all add: main_def no_frame_run_deferred)
    then show ?thesis by blast
  qed
  have shaders: "setup_failure p e" if "uses_shaders p" "shaders_fail e"
    using that by (cases p) (simp_all add: uses_shaders_def)
  show ?thesis
  proof (intro conjI impI)
    assume "(uses_textures p \<longrightarrow> decoder_row_layout e) \<and> setup_failure p e"
    then show "\<exists>m w. main p e = Some (Panicked m, w) \<and> no_frame w"
      using fatal by blast
  next
    assume a: "(uses_textures p \<longrightarrow> decoder_row_layout e) \<and> uses_shaders p \<and>
      (compile_status e VERTEX_SHADER \<noteq> GL_TRUE \<or> compile_status e FRAGMENT_SHADER \<noteq> GL_TRUE)"
    then have "shaders_fail e" by (auto simp: shaders_fail_def)
    with a have "setup_failure p e" using shaders by blast
    with a show "\<exists>m w. main p e = Some (Panicked m, w) \<and> no_frame w"
      using fatal by blast
  next
    assume a: "(uses_textures p \<longrightarrow> decoder_row_layout e) \<and> validation_reflects_link e \<and>
      uses_shaders p \<and> link_status e \<noteq> GL_TRUE"
    then have "validate_status e \<noteq> GL_TRUE" by (simp add: validation_reflects_link_def)
    then have "shaders_fail e" by (simp add: shaders_fail_def)
    with a have "setup_failure p e" using shaders by blast
    with a show "\<exists>m w. main p e = Some (Panicked m, w) \<and> no_frame w"
      using fatal by blast
  next
    assume "\<not> glfw_Init e"
    then have "\<exists>w. run_setup p e w0 = Pan ''Can't init glfw!'' w"
      by (cases p)
         (simp_all add: setup_context_def setup_cube_def setup_triangle_def setup_quad_def
            init_glfw_def Let_def)
    then show "\<exists>w. main p e = Some (Panicked ''Can't init glfw!'', w)"
      by (auto simp: main_def)
  qed
qed

theorem setup_failure_is_fatal_witness:
  "uses_textures ReflectiveCube \<and> uses_shaders ReflectiveCube \<and>
   decoder_row_layout (env_ok\<lparr>compile_status := (\<lambda>k. 0)\<rparr>) \<and>
   compile_status (env_ok\<lparr>compile_status := (\<lambda>k. 0)\<rparr>) VERTEX_SHADER \<noteq> GL_TRUE \<and>
   setup_failure ReflectiveCube (env_ok\<lparr>compile_status := (\<lambda>k. 0)\<rparr>) \<and>
   (\<exists>m w. main ReflectiveCube (env_ok\<lparr>compile_status := (\<lambda>k. 0)\<rparr>) = Some (Panicked m, w) \<and>
          no_frame w) \<and>
   validation_reflects_link (env_ok\<lparr>link_status := 0, validate_status := 0\<rparr>) \<and>
   uses_shaders Triangle \<and>
   link_status (env_ok\<lparr>link_status := 0, validate_status := 0\<rparr>) \<noteq> GL_TRUE \<and>
   (\<exists>m w. main Triangle (env_ok\<lparr>link_status := 0, validate_status := 0\<rparr>) =
            Some (Panicked m, w) \<and> no_frame w) \<and>
   \<not> glfw_Init (env_ok\<lparr>glfw_Init := False\<rparr>) \<and>
   (\<exists>w. main Triangle (env_ok\<lparr>glfw_Init := False\<rparr>) = Some (Panicked ''Can't init glfw!'', w))"
proof -
  have lay: "decoder_row_layout (env_ok\<lparr>compile_status := (\<lambda>k. 0)\<rparr>)"
    using decoder_row_layout_env_ok by (simp add: decoder_row_layout_def)
  have fail: "setup_failure ReflectiveCube (env_ok\<lparr>compile_status := (\<lambda>k. 0)\<rparr>)"
    by (simp add: shaders_fail_def GL_TRUE_def)
  have link: "validation_reflects_link (env_ok\<lparr>link_status := 0, validate_status := 0\<rparr>)"
    "link_status (env_ok\<lparr>link_status := 0, validate_status := 0\<rparr>) \<noteq> GL_TRUE"
    by (simp_all add: validation_reflects_link_def GL_TRUE_def)
  show ?thesis
    using setup_failure_is_fatal[of ReflectiveCube "env_ok\<lparr>compile_status := (\<lambda>k. 0)\<rparr>"]
      setup_failure_is_fatal[of Triangle "env_ok\<lparr>link_status := 0, validate_status := 0\<rparr>"]
      setup_failure_is_fatal[of Triangle "env_ok\<lparr>glfw_Init := False\<rparr>"] lay fail link
    by (simp add: uses_textures_def uses_shaders_def GL_TRUE_def)
qed







text \<open>
  \<^bold>\<open>C4.\<close> In the reflective-cube program, the draws, stencil calls, depth-mask calls
  and stencil-buffer clears that one iteration of the render loop issues are, in this
  order and with nothing else of their kind in between: draw the cube (36 vertices from
  0), enable the stencil test, stencil function ALWAYS with reference 1, stencil
  operation REPLACE on pass, stencil write mask 0xFF, depth writes off, clear the
  stencil buffer, draw the floor (6 vertices from 36), stencil function EQUAL with
  reference 1, stencil write mask 0x00, depth writes on, draw the reflected cube, disable
  the stencil test.
\<close>

theorem stencil_recipe_order:
  "filter stencil_recipe_call (new_calls w (frame ReflectiveCube e inp w)) =
     [DrawArrays 0 36,
      Enable STENCIL_TEST,
      StencilFunc ALWAYS 1 0xFF,
      StencilOp KEEP KEEP REPLACE,
      StencilMask 0xFF,
      DepthMask False,
      Clear [STENCIL_BUFFER_BIT],
      DrawArrays 36 6,
      StencilFunc EQUAL 1 0xFF,
      StencilMask 0x00,
      DepthMask True,
      DrawArrays 0 36,
      Disable STENCIL_TEST]"
proof -
  obtain n where n: "new_calls w (frame_cube e inp w) =
     PollEvents # replicate n (SetShouldClose True) @
     [GetFramebufferSize, Viewport 0 0 (fst (fb_size inp)) (snd (fb_size inp)),
      ClearColor 1 1 1 1, Clear [COLOR_BUFFER_BIT, DEPTH_BUFFER_BIT],
      UniformMatrix4fv ''model'' (rotation inp),
      DrawArrays 0 36,
      Enable STENCIL_TEST,
      StencilFunc ALWAYS 1 0xFF,
      StencilOp KEEP KEEP REPLACE,
      StencilMask 0xFF,
      DepthMask False,
      Clear [STENCIL_BUFFER_BIT],
      DrawArrays 36 6,
      StencilFunc EQUAL 1 0xFF,
      StencilMask 0x00,
      DepthMask True,
      UniformMatrix4fv ''model'' (Mul4 (Mul4 (rotation inp) (Translate3D 0 0 (- 1))) (Scale3D 1 1 (- 1))),
      Uniform3f ''overrideColor'' (3 / 10) (3 / 10) (3 / 10),
      DrawArrays 0 36,
      Uniform3f ''overrideColor'' 1 1 1,
      Disable STENCIL_TEST,
      GetError,
      SwapBuffers]"
    using frame_cube_calls by blast
  show ?thesis
    by (simp add: n filter_recipe_replicate) (simp add: stencil_recipe_call_def)
qed

theorem stencil_recipe_order_witness:
  "filter stencil_recipe_call (new_calls w0 (frame ReflectiveCube env_ok escape_frame w0)) =
     [DrawArrays 0 36, Enable STENCIL_TEST, StencilFunc ALWAYS 1 0xFF,
      StencilOp KEEP KEEP REPLACE, StencilMask 0xFF, DepthMask False,
      Clear [STENCIL_BUFFER_BIT], DrawArrays 36 6, StencilFunc EQUAL 1 0xFF,
      StencilMask 0x00, DepthMask True, DrawArrays 0 36, Disable STENCIL_TEST]"
  using stencil_recipe_order[of w0 env_ok escape_frame] by simp

lemma frame_context_calls:
  "\<exists>n. new_calls w (frame ContextCreation e inp w) =
         SwapBuffers # PollEvents # replicate n (SetShouldClose True)"
proof -
  obtain n where "calls (poll_events (events inp) (issue SwapBuffers w)) =
      calls (issue SwapBuffers w) @ PollEvents # replicate n (SetShouldClose True)"
    using calls_poll_events by blast
  then have "new_calls w (frame ContextCreation e inp w) =
         SwapBuffers # PollEvents # replicate n (SetShouldClose True)"
    by (simp add: new_calls_def frame_context_def issue_def)
  then show ?thesis by blast
qed

text \<open>
  \<^bold>\<open>C5.\<close> As stated the claim fails for one program: the render loop of the
  context-creation program has no error poll. One iteration of it swaps the buffers
  and polls the events, and never calls \<open>gl.GetError()\<close>.
\<close>

theorem context_creation_loop_never_polls:
  "new_calls w0 (frame ContextCreation env_ok escape_frame w0) =
     [SwapBuffers, PollEvents, SetShouldClose True] \<and>
   GetError \<notin> set (new_calls w0 (frame ContextCreation env_ok escape_frame w0))"
  by (simp add: new_calls_def frame_context_def poll_events_def issue_def w0_def
      escape_frame_def handleKey_def Press_def KeyEscape_def)

text \<open>
  \<^bold>\<open>C5, amended.\<close> \<open>checkError\<close> always returns; it leaves the should-close flag and
  the deferred calls as they are, adds the one \<open>gl.GetError()\<close> to the log, and prints
  one message exactly when the code is not NO_ERROR. In the reflective-cube, triangle
  and textured-quad programs every iteration of the render loop ends with that poll
  followed by the buffer swap; the loop of the context-creation program never polls.
  In every program, apart from standard output, the world after an iteration does not
  depend on the polled code, and neither does the run of the whole loop: whether it
  ends, and the world it ends in.
\<close>

theorem error_poll_only_prints:
  "ShouldClose (checkError e prefix glError w) = ShouldClose w \<and>
   deferred (checkError e prefix glError w) = deferred w \<and>
   calls (checkError e prefix glError w) = calls w @ [GetError] \<and>
   (glError = NO_ERROR \<longrightarrow> stdout (checkError e prefix glError w) = stdout w) \<and>
   (glError \<noteq> NO_ERROR \<longrightarrow> (\<exists>msg. stdout (checkError e prefix glError w) = stdout w @ [msg])) \<and>
   (p \<noteq> ContextCreation \<longrightarrow>
      (\<exists>cs. new_calls w (frame p e inp w) = cs @ [GetError, SwapBuffers])) \<and>
   GetError \<notin> set (new_calls w (frame ContextCreation e inp w)) \<and>
   forget_stdout (frame p e (inp\<lparr>gl_error := code\<rparr>) w) = forget_stdout (frame p e inp w) \<and>
   ((\<forall>i. inputs' i = (inputs i)\<lparr>gl_error := codes i\<rparr>) \<longrightarrow>
      map_option forget_stdout (render_loop (frame p e) inputs' i w) =
      map_option forget_stdout (render_loop (frame p e) inputs i w))"
proof (intro conjI impI)
  show "ShouldClose (checkError e prefix glError w) = ShouldClose w"
    and "deferred (checkError e prefix glError w) = deferred w"
    and "calls (checkError e prefix glError w) = calls w @ [GetError]"
    by (rule checkError_fields)+
  show "stdout (checkError e prefix glError w) = stdout w" if "glError = NO_ERROR"
    using that by (rule checkError_stdout)
  show "\<exists>msg. stdout (checkError e prefix glError w) = stdout w @ [msg]" if "glError \<noteq> NO_ERROR"
    using that by (rule checkError_stdout)
  show "\<exists>cs. new_calls w (frame p e inp w) = cs @ [GetError, SwapBuffers]"
    if "p \<noteq> ContextCreation"
    using that by (rule frame_tail)
  show "GetError \<notin> set (new_calls w (frame ContextCreation e inp w))"
    using frame_context_calls[of w e inp] by auto
  show "forget_stdout (frame p e (inp\<lparr>gl_error := code\<rparr>) w) = forget_stdout (frame p e inp w)"
    by (rule forget_frame) (rule refl)
  show "map_option forget_stdout (render_loop (frame p e) inputs' i w) =
      map_option forget_stdout (render_loop (frame p e) inputs i w)"
    if "\<forall>i. inputs' i = (inputs i)\<lparr>gl_error := codes i\<rparr>"
    using that by (rule render_loop_forget)
qed

theorem error_poll_only_prints_witness:
  "(1280 :: nat) \<noteq> NO_ERROR \<and> ReflectiveCube \<noteq> ContextCreation \<and>
   (\<forall>i. (\<lambda>i. (frames env_ok i)\<lparr>gl_error := 1280\<rparr>) i = (frames env_ok i)\<lparr>gl_error := 1280\<rparr>) \<and>
   stdout (checkError env_ok ''main loop'' 1280 w0) = [''main loop: unspecified error!'' @ newline] \<and>
   calls (checkError env_ok ''main loop'' 1280 w0) = [GetError] \<and>
   \<not> ShouldClose (checkError env_ok ''main loop'' 1280 w0) \<and>
   (\<exists>cs. new_calls w0 (frame ReflectiveCube env_ok escape_frame w0) = cs @ [GetError, SwapBuffers]) \<and>
   map_option forget_stdout
     (render_loop (frame ReflectiveCube env_ok) (\<lambda>i. (frames env_ok i)\<lparr>gl_error := 1280\<rparr>) 0 w0) =
   map_option forget_stdout (render_loop (frame ReflectiveCube env_ok) (frames env_ok) 0 w0)"
  using error_poll_only_prints[where e = env_ok and prefix = "''main loop''" and glError = 1280
      and w = w0 and p = ReflectiveCube and inp = escape_frame
      and inputs' = "\<lambda>i. (frames env_ok i)\<lparr>gl_error := 1280\<rparr>" and inputs = "frames env_ok"
      and codes = "\<lambda>i. 1280" and i = 0]
  by (simp add: NO_ERROR_def checkError_def env_ok_def w0_def issue_def printf_def Let_def)

text \<open>
  \<^bold>\<open>C6.\<close> \<open>createTexture\<close> returns an error and texture 0, without a single GL call,
  when the PNG decoder fails and when the decoded image is not an NRGBA image. Its
  caller panics with the error it returns: \<open>main\<close> of the two texture programs panics
  with the error of the first texture, and panics whenever either texture fails. A
  setup that completes has opened exactly \<open>sample.png\<close> and \<open>sample2.png\<close>, in that
  order, in the two texture programs, and no file in the other two.
\<close>

theorem texture_errors_are_fatal:
  "(png_Decode e r = Inl err \<longrightarrow> createTexture e r w = Ret (0, Some err) (issue PngDecode w)) \<and>
   (png_Decode e r = Inr OtherImage \<longrightarrow>
      createTexture e r w = Ret (0, Some ''texture must be an NRGBA image'') (issue PngDecode w)) \<and>
   (os_Open e name = Inr r \<and>
    createTexture e r (issue (ActiveTexture unit) (issue (OsOpen name) w)) = Ret (t, Some err) w2 \<longrightarrow>
      load_texture e name unit w = Pan err w2) \<and>
   (uses_textures p \<and> glfw_Init e \<and> create_window_err e = None \<and>
    os_Open e ''sample.png'' = Inr r \<and>
    (png_Decode e r = Inl err \<or>
     (png_Decode e r = Inr OtherImage \<and> err = ''texture must be an NRGBA image'')) \<longrightarrow>
      (\<exists>wp. main p e = Some (Panicked err, wp))) \<and>
   (uses_textures p \<and> decoder_row_layout e \<and>
    (texture_fails e ''sample.png'' \<or> texture_fails e ''sample2.png'') \<longrightarrow>
      (\<exists>m wp. main p e = Some (Panicked m, wp))) \<and>
   (run_setup p e w0 = Ret u ws \<longrightarrow>
      files_opened (calls ws) = (if uses_textures p then [''sample.png'', ''sample2.png''] else []))"
proof (intro conjI impI)
  show "createTexture e r w = Ret (0, Some err) (issue PngDecode w)" if "png_Decode e r = Inl err"
    using that by (rule createTexture_error)
  show "createTexture e r w = Ret (0, Some ''texture must be an NRGBA image'') (issue PngDecode w)"
    if "png_Decode e r = Inr OtherImage"
    using that by (rule createTexture_error)
  show "load_texture e name unit w = Pan err w2"
    if "os_Open e name = Inr r \<and>
        createTexture e r (issue (ActiveTexture unit) (issue (OsOpen name) w)) = Ret (t, Some err) w2"
    using that by (simp add: load_texture_def Let_def)
  show "\<exists>wp. main p e = Some (Panicked err, wp)"
    if "uses_textures p \<and> glfw_Init e \<and> create_window_err e = None \<and>
        os_Open e ''sample.png'' = Inr r \<and>
        (png_Decode e r = Inl err \<or>
         (png_Decode e r = Inr OtherImage \<and> err = ''texture must be an NRGBA image''))"
    using that first_texture_error_is_panic_value[of p e r err] by blast
  show "\<exists>m wp. main p e = Some (Panicked m, wp)"
    if "uses_textures p \<and> decoder_row_layout e \<and>
        (texture_fails e ''sample.png'' \<or> texture_fails e ''sample2.png'')"
    using that texture_failure_panics[of p e] by blast
  show "files_opened (calls ws) = (if uses_textures p then [''sample.png'', ''sample2.png''] else [])"
    if "run_setup p e w0 = Ret u ws"
    using that by (rule setup_files)
qed

theorem texture_errors_are_fatal_witness:
  "png_Decode (env_ok\<lparr>png_Decode := (\<lambda>r. Inl ''png: invalid format: not a PNG file'')\<rparr>) [] =
     Inl ''png: invalid format: not a PNG file'' \<and>
   createTexture (env_ok\<lparr>png_Decode := (\<lambda>r. Inl ''png: invalid format: not a PNG file'')\<rparr>) [] w0 =
     Ret (0, Some ''png: invalid format: not a PNG file'') (issue PngDecode w0) \<and>
   createTexture (env_ok\<lparr>png_Decode := (\<lambda>r. Inr OtherImage)\<rparr>) [] w0 =
     Ret (0, Some ''texture must be an NRGBA image'') (issue PngDecode w0) \<and>
   uses_textures TexturedQuad \<and>
   (\<exists>wp. main TexturedQuad (env_ok\<lparr>png_Decode := (\<lambda>r. Inl ''png: invalid format: not a PNG file'')\<rparr>) =
      Some (Panicked ''png: invalid format: not a PNG file'', wp)) \<and>
   (\<exists>wp. main ReflectiveCube (env_ok\<lparr>png_Decode := (\<lambda>r. Inr OtherImage)\<rparr>) =
      Some (Panicked ''texture must be an NRGBA image'', wp)) \<and>
   (\<exists>ws. run_setup ReflectiveCube env_ok w0 = Ret () ws \<and>
      files_opened (calls ws) = [''sample.png'', ''sample2.png''])"
proof -
  let ?bad = "env_ok\<lparr>png_Decode := (\<lambda>r. Inl ''png: invalid format: not a PNG file'')\<rparr>"
  let ?other = "env_ok\<lparr>png_Decode := (\<lambda>r. Inr OtherImage)\<rparr>"
  obtain ws where ws: "run_setup ReflectiveCube env_ok w0 = Ret () ws"
    using setup_succeeds_env_ok by blast
  have o: "os_Open ?bad ''sample.png'' = Inr []" "os_Open ?other ''sample.png'' = Inr []"
    "glfw_Init ?bad" "glfw_Init ?other" "create_window_err ?bad = None"
    "create_window_err ?other = None"
    by (simp_all add: env_ok_def)
  show ?thesis
    using texture_errors_are_fatal[where e = ?bad and r = "[]" and w = w0
        and err = "''png: invalid format: not a PNG file''" and p = TexturedQuad]
      texture_errors_are_fatal[where e = ?other and r = "[]" and w = w0
        and err = "''texture must be an NRGBA image''" and p = ReflectiveCube]
      texture_errors_are_fatal[where e = env_ok and p = ReflectiveCube and ws = ws and u = "()"]
      ws o
    by (simp add: uses_textures_def)
qed

text \<open>
  \<^bold>\<open>C7.\<close> As stated the claim fails: the textured-quad program creates two buffer
  objects, the vertex buffer and the element buffer.
\<close>

theorem textured_quad_creates_two_buffers:
  "buffers_of_setup TexturedQuad env_ok = Some 2"
proof -
  obtain ws where ws: "run_setup TexturedQuad env_ok w0 = Ret () ws"
    using setup_succeeds_env_ok by blast
  from setup_buffers[OF ws] have "buffers_created (calls ws) = 2" by simp
  with ws show ?thesis by (simp add: buffers_of_setup_def)
qed

text \<open>
  \<^bold>\<open>C7, amended.\<close> A setup that completes has created exactly one buffer object in
  the context-creation, reflective-cube and triangle programs, and exactly two in the
  textured-quad program; and the setup completes whenever none of its checks fails.
\<close>

theorem buffers_created_by_setup:
  "(buffers_of_setup p e = Some n \<longrightarrow> n = (if p = TexturedQuad then 2 else 1)) \<and>
   ((uses_textures p \<longrightarrow> decoder_row_layout e) \<and> \<not> setup_failure p e \<longrightarrow>
      buffers_of_setup p e = Some (if p = TexturedQuad then 2 else 1))"
proof (intro conjI impI)
  assume "buffers_of_setup p e = Some n"
  then obtain u ws where "run_setup p e w0 = Ret u ws" "n = buffers_created (calls ws)"
    by (auto simp: buffers_of_setup_def split: exec.splits)
  then show "n = (if p = TexturedQuad then 2 else 1)" by (simp add: setup_buffers)
next
  assume "(uses_textures p \<longrightarrow> decoder_row_layout e) \<and> \<not> setup_failure p e"
  with setup_outcome[of p e] obtain ws where ws: "run_setup p e w0 = Ret () ws" by auto
  then have "buffers_created (calls ws) = (if p = TexturedQuad then 2 else 1)"
    by (rule setup_buffers)
  with ws show "buffers_of_setup p e = Some (if p = TexturedQuad then 2 else 1)"
    by (simp add: buffers_of_setup_def)
qed

theorem buffers_created_by_setup_witness:
  "decoder_row_layout env_ok \<and> \<not> setup_failure ReflectiveCube env_ok \<and>
   buffers_of_setup ContextCreation env_ok = Some 1 \<and>
   buffers_of_setup ReflectiveCube env_ok = Some 1 \<and>
   buffers_of_setup Triangle env_ok = Some 1 \<and>
   buffers_of_setup TexturedQuad env_ok = Some 2"
  using buffers_created_by_setup[where p = ContextCreation and e = env_ok and n = 1]
    buffers_created_by_setup[where p = ReflectiveCube and e = env_ok and n = 1]
    buffers_created_by_setup[where p = Triangle and e = env_ok and n = 1]
    buffers_created_by_setup[where p = TexturedQuad and e = env_ok and n = 2]
    decoder_row_layout_env_ok setup_failure_env_ok[of ContextCreation]
    setup_failure_env_ok[of ReflectiveCube] setup_failure_env_ok[of Triangle]
    setup_failure_env_ok[of TexturedQuad]
  by simp

text \<open>
  \<^bold>\<open>C8.\<close> For every NRGBA image in row layout, of width \<open>W\<close> and height \<open>H\<close>,
  \<open>createTexture\<close> returns a texture and no error, and the one byte array it passes to
  \<open>TexImage2D\<close> has \<open>W * H * 4\<close> bytes, its row \<open>j\<close> (of \<open>W * 4\<close> bytes) being the first
  \<open>W * 4\<close> bytes of the source's row \<open>H - 1 - j\<close>, for every \<open>j < H\<close>.
\<close>

theorem createTexture_flips_rows:
  "png_Decode e r = Inr (NRGBAImage img) \<and> row_layout img \<longrightarrow>
     (\<exists>tex data w'.
        createTexture e r w = Ret (tex, None) w' \<and>
        new_calls w w' =
          [PngDecode, GenTexture, BindTexture tex, TexParameterf TEXTURE_MAG_FILTER,
           TexParameterf TEXTURE_MIN_FILTER, TexImage2D (Dx (Rect img)) (Dy (Rect img)) data] \<and>
        length data = nat (Dx (Rect img) * Dy (Rect img) * 4) \<and>
        (\<forall>j < nat (Dy (Rect img)).
           row (nat (4 * Dx (Rect img))) (nat (4 * Dx (Rect img))) j data =
           row (nat (4 * Dx (Rect img))) (nat (Stride img)) (nat (Dy (Rect img)) - 1 - j) (Pix img)))"
proof (intro impI, elim conjE)
  assume dec: "png_Decode e r = Inr (NRGBAImage img)" and lay: "row_layout img"
  let ?tex = "gen_texture e (length (filter (\<lambda>c. c = GenTexture) (calls w)))"
  from createTexture_row_layout[OF dec lay, of w] obtain data where d:
    "createTexture e r w = Ret (?tex, None)
       (issue (TexImage2D (Dx (Rect img)) (Dy (Rect img)) data)
          (issues [GenTexture, BindTexture ?tex,
                   TexParameterf TEXTURE_MAG_FILTER, TexParameterf TEXTURE_MIN_FILTER]
             (issue PngDecode w)))"
    "length data = nat (Dx (Rect img) * Dy (Rect img) * 4)"
    "\<forall>j < nat (Dy (Rect img)).
       row (nat (4 * Dx (Rect img))) (nat (4 * Dx (Rect img))) j data =
       row (nat (4 * Dx (Rect img))) (nat (Stride img)) (nat (Dy (Rect img)) - 1 - j) (Pix img)"
    by blast
  have "new_calls w (issue (TexImage2D (Dx (Rect img)) (Dy (Rect img)) data)
          (issues [GenTexture, BindTexture ?tex,
                   TexParameterf TEXTURE_MAG_FILTER, TexParameterf TEXTURE_MIN_FILTER]
             (issue PngDecode w))) =
        [PngDecode, GenTexture, BindTexture ?tex, TexParameterf TEXTURE_MAG_FILTER,
         TexParameterf TEXTURE_MIN_FILTER, TexImage2D (Dx (Rect img)) (Dy (Rect img)) data]"
    by (simp add: new_calls_def issue_def issues_def)
  with d show "\<exists>tex data w'.
        createTexture e r w = Ret (tex, None) w' \<and>
        new_calls w w' =
          [PngDecode, GenTexture, BindTexture tex, TexParameterf TEXTURE_MAG_FILTER,
           TexParameterf TEXTURE_MIN_FILTER, TexImage2D (Dx (Rect img)) (Dy (Rect img)) data] \<and>
        length data = nat (Dx (Rect img) * Dy (Rect img) * 4) \<and>
        (\<forall>j < nat (Dy (Rect img)).
           row (nat (4 * Dx (Rect img))) (nat (4 * Dx (Rect img))) j data =
           row (nat (4 * Dx (Rect img))) (nat (Stride img)) (nat (Dy (Rect img)) - 1 - j) (Pix img))"
    by blast
qed

theorem createTexture_flips_rows_witness:
  "png_Decode env_ok [] = Inr (NRGBAImage img12) \<and> row_layout img12 \<and>
   (\<exists>tex data w'.
      createTexture env_ok [] w0 = Ret (tex, None) w' \<and>
      new_calls w0 w' =
        [PngDecode, GenTexture, BindTexture tex, TexParameterf TEXTURE_MAG_FILTER,
         TexParameterf TEXTURE_MIN_FILTER, TexImage2D 1 2 data] \<and>
      length data = 8 \<and>
      row 4 4 0 data = [5, 6, 7, 8] \<and> row 4 4 1 data = [1, 2, 3, 4])"
proof -
  have dec: "png_Decode env_ok [] = Inr (NRGBAImage img12)" by (simp add: env_ok_def)
  have lay: "row_layout img12" by (simp add: row_layout_def img12_def Dx_def Dy_def)
  have dims: "Dx (Rect img12) = 1" "Dy (Rect img12) = 2" "Stride img12 = 4"
    "Pix img12 = [1, 2, 3, 4, 5, 6, 7, 8]"
    by (simp_all add: img12_def Dx_def Dy_def)
  from createTexture_flips_rows[of env_ok "[]" img12 w0] dec lay
  obtain tex data w' where d: "createTexture env_ok [] w0 = Ret (tex, None) w'"
    "new_calls w0 w' =
        [PngDecode, GenTexture, BindTexture tex, TexParameterf TEXTURE_MAG_FILTER,
         TexParameterf TEXTURE_MIN_FILTER, TexImage2D 1 2 data]"
    "length data = 8"
    "\<forall>j < 2. row 4 4 j data = row 4 4 (2 - 1 - j) [1, 2, 3, 4, 5, 6, 7, 8 :: byte]"
    by (auto simp: dims)
  from d(4) have "row 4 4 0 data = row 4 4 1 [1, 2, 3, 4, 5, 6, 7, 8 :: byte]"
    "row 4 4 1 data = row 4 4 0 [1, 2, 3, 4, 5, 6, 7, 8 :: byte]"
    by (auto dest: spec[of _ 0] spec[of _ 1])
  then have "row 4 4 0 data = [5, 6, 7, 8]" "row 4 4 1 data = [1, 2, 3, 4]"
    by (simp_all add: row_def)
  with d dec lay show ?thesis by blast
qed

text \<open>
  \<^bold>\<open>C9.\<close> In the reflective-cube program, after every iteration of the render loop
  the stencil test is disabled and the \<open>overrideColor\<close> uniform holds (1, 1, 1), whatever
  the state the iteration started in. A completed setup leaves the same state, so every
  iteration, the first included, starts and ends with the stencil test disabled and
  the override colour white.
\<close>

theorem stencil_state_restored:
  "\<not> cap_enabled STENCIL_TEST (calls (frame ReflectiveCube e inp w)) \<and>
   uniform3f_value ''overrideColor'' (calls (frame ReflectiveCube e inp w)) = Some (1, 1, 1) \<and>
   (run_setup ReflectiveCube e w0 = Ret u ws \<longrightarrow>
      \<not> cap_enabled STENCIL_TEST (calls (iterate (frame ReflectiveCube e) (frames e) 0 k ws)) \<and>
      uniform3f_value ''overrideColor'' (calls (iterate (frame ReflectiveCube e) (frames e) 0 k ws)) =
        Some (1, 1, 1)) \<and>
   (decoder_row_layout e \<and> \<not> setup_failure ReflectiveCube e \<longrightarrow>
      (\<exists>ws. run_setup ReflectiveCube e w0 = Ret () ws))"
proof (intro conjI impI)
  show "\<not> cap_enabled STENCIL_TEST (calls (frame ReflectiveCube e inp w))"
    and "uniform3f_value ''overrideColor'' (calls (frame ReflectiveCube e inp w)) = Some (1, 1, 1)"
    by (simp_all add: frame_cube_state)
  show "\<not> cap_enabled STENCIL_TEST (calls (iterate (frame ReflectiveCube e) (frames e) 0 k ws))"
    if "run_setup ReflectiveCube e w0 = Ret u ws"
    using setup_state_cube[OF that] by blast
  show "uniform3f_value ''overrideColor'' (calls (iterate (frame ReflectiveCube e) (frames e) 0 k ws)) =
        Some (1, 1, 1)"
    if "run_setup ReflectiveCube e w0 = Ret u ws"
    using setup_state_cube[OF that] by blast
  show "\<exists>ws. run_setup ReflectiveCube e w0 = Ret () ws"
    if "decoder_row_layout e \<and> \<not> setup_failure ReflectiveCube e"
    using that setup_outcome[of ReflectiveCube e] by auto
qed

theorem stencil_state_restored_witness:
  "decoder_row_layout env_ok \<and> \<not> setup_failure ReflectiveCube env_ok \<and>
   (\<exists>ws. run_setup ReflectiveCube env_ok w0 = Ret () ws \<and>
      \<not> cap_enabled STENCIL_TEST (calls ws) \<and>
      uniform3f_value ''overrideColor'' (calls ws) = Some (1, 1, 1) \<and>
      \<not> cap_enabled STENCIL_TEST
          (calls (iterate (frame ReflectiveCube env_ok) (frames env_ok) 0 3 ws)) \<and>
      uniform3f_value ''overrideColor''
          (calls (iterate (frame ReflectiveCube env_ok) (frames env_ok) 0 3 ws)) = Some (1, 1, 1)) \<and>
   \<not> cap_enabled STENCIL_TEST (calls (frame ReflectiveCube env_ok escape_frame w0)) \<and>
   uniform3f_value ''overrideColor'' (calls (frame ReflectiveCube env_ok escape_frame w0)) =
     Some (1, 1, 1)"
proof -
  from stencil_state_restored[of env_ok escape_frame w0] decoder_row_layout_env_ok
    setup_failure_env_ok[of ReflectiveCube]
  obtain ws where ws: "run_setup ReflectiveCube env_ok w0 = Ret () ws" by blast
  show ?thesis
    using stencil_state_restored[of env_ok escape_frame w0 "()" ws 0]
      stencil_state_restored[of env_ok escape_frame w0 "()" ws 3]
      ws decoder_row_layout_env_ok setup_failure_env_ok[of ReflectiveCube]
    by auto
qed

text \<open>
  \<^bold>\<open>C10.\<close> The key callback returns the world it was given, unchanged, for every
  event whose action is not Press and for every event whose key is not Escape: key
  releases, key repeats and presses of other keys leave the should-close flag, the log,
  the output and the deferred calls as they were.
\<close>

theorem key_callback_ignores_other_events:
  "(action \<noteq> Press \<longrightarrow> handleKey w k s action mods = w) \<and>
   (k \<noteq> KeyEscape \<longrightarrow> handleKey w k s action mods = w)"
  by (simp add: handleKey_def)

theorem key_callback_ignores_other_events_witness:
  "Release \<noteq> Press \<and> Repeat \<noteq> Press \<and> (65 :: Key) \<noteq> KeyEscape \<and>
   handleKey w0 KeyEscape 9 Release 0 = w0 \<and>
   handleKey w0 KeyEscape 9 Repeat 0 = w0 \<and>
   handleKey w0 65 38 Press 0 = w0"
  using key_callback_ignores_other_events[of Release w0 KeyEscape 9 0]
    key_callback_ignores_other_events[of Repeat w0 KeyEscape 9 0]
    key_callback_ignores_other_events[of Press w0 65 38 0]
  by (simp add: Release_def Repeat_def Press_def KeyEscape_def)

end
